theory Spec2Isabelle
  imports Main "HOL-Library.AList"
begin

section \<open>Syntax trees\<close>

text \<open>
  The updater (\<^verbatim>\<open>src/update/src/update.ts\<close>) edits TypeScript sources through the
  ts-morph library.  The library is not part of the repository, so the tree it exposes is
  modelled by the node kinds that the updater inspects; every other expression is an
  opaque piece of text.  The operations of the library are taken as its documentation
  describes them: \<^verbatim>\<open>replaceWithText\<close> puts the tree of the given text in the place of a
  node, \<^verbatim>\<open>remove\<close> takes a node out of its list, \<^verbatim>\<open>setType\<close>, \<^verbatim>\<open>addArgument\<close>,
  \<^verbatim>\<open>addNamedImport\<close> and \<^verbatim>\<open>insertVariableStatement\<close> add what they name, and the nodes
  fetched before an edit stay usable after it.  Mutation of the tree is explicit: every
  function returns the tree it has edited.
\<close>

datatype expr =
    Identifier string
  | NumericLiteral string
  | PropertyAccessExpression expr string
  | CallExpression expr "expr list"
  | AwaitExpression expr
  | BinaryExpression expr string expr
  | OtherExpression string

text \<open>\<^verbatim>\<open>node.getText()\<close>: the source text of an expression, in the formatter's layout.\<close>

fun commaSep :: "string list \<Rightarrow> string" where
  "commaSep [] = []"
| "commaSep [x] = x"
| "commaSep (x # y # ys) = x @ '', '' @ commaSep (y # ys)"

fun getText :: "expr \<Rightarrow> string" where
  "getText (Identifier n) = n"
| "getText (NumericLiteral n) = n"
| "getText (PropertyAccessExpression e n) = getText e @ ''.'' @ n"
| "getText (CallExpression f args) = getText f @ ''('' @ commaSep (map getText args) @ '')''"
| "getText (AwaitExpression e) = ''await '' @ getText e"
| "getText (BinaryExpression l op r) = getText l @ '' '' @ op @ '' '' @ getText r"
| "getText (OtherExpression t) = t"

section \<open>Member-access rewriter\<close>

text \<open>
  \<^verbatim>\<open>rewriteCtxMemberName\<close> mutates the node it is given and, through
  \<^verbatim>\<open>node.getParentIfKind(SyntaxKind.CallExpression)\<close>, the call expression that is its
  parent.  The model passes the parent along: the node is the callee of a call with the
  given arguments, one of the arguments of a call, or has a parent of another kind.
\<close>

datatype parent =
    CalleeOf "expr list"
  | ArgumentOf expr "expr list" "expr list"
  | OtherParent

text \<open>The parent with the node put back in its place.\<close>

fun plug :: "parent \<Rightarrow> expr \<Rightarrow> expr" where
  "plug (CalleeOf args) e = CallExpression e args"
| "plug (ArgumentOf f before after) e = CallExpression f (before @ e # after)"
| "plug OtherParent e = e"

text \<open>\<^verbatim>\<open>caller.addArgument("404")\<close>, when the parent is a call expression.\<close>

fun addArgument404 :: "parent \<Rightarrow> parent" where
  "addArgument404 (CalleeOf args) = CalleeOf (args @ [NumericLiteral ''404''])"
| "addArgument404 (ArgumentOf f before after) =
     ArgumentOf f before (after @ [NumericLiteral ''404''])"
| "addArgument404 OtherParent = OtherParent"

text \<open>The tree of the text \<^verbatim>\<open>ctx.info.remoteAddr\<close> handed to \<^verbatim>\<open>replaceWithText\<close>.\<close>

definition ctx_info_remoteAddr :: expr where
  "ctx_info_remoteAddr =
     PropertyAccessExpression (PropertyAccessExpression (Identifier ''ctx'') ''info'')
       ''remoteAddr''"

text \<open>
  A property access has the children receiver, dot and name, so \<^verbatim>\<open>children[0]\<close> is the
  receiver and \<^verbatim>\<open>last\<close> is the name.  The first branch replaces the receiver
  (\<^verbatim>\<open>node.getExpression()\<close>) and keeps the name; the second renames the name and adds the
  argument to a parent call; the third recurses into a receiver that is itself a property
  access, whose parent is then this node and not a call.
\<close>

fun rewriteCtxMemberName :: "parent \<Rightarrow> expr \<Rightarrow> parent \<times> expr" where
  "rewriteCtxMemberName par (PropertyAccessExpression e name) =
     (if getText e = ''ctx'' \<and> name = ''remoteAddr''
      then (par, PropertyAccessExpression ctx_info_remoteAddr name)
      else if name = ''renderNotFound''
      then (addArgument404 par, PropertyAccessExpression e ''throw'')
      else (case e of
              PropertyAccessExpression r n \<Rightarrow>
                (par, PropertyAccessExpression (snd (rewriteCtxMemberName OtherParent e)) name)
            | _ \<Rightarrow> (par, PropertyAccessExpression e name)))"
| "rewriteCtxMemberName par e = (par, e)"

text \<open>A chain of accesses \<^verbatim>\<open>e.n1.n2...\<close> on a receiver.\<close>

definition accessChain :: "expr \<Rightarrow> string list \<Rightarrow> expr" where
  "accessChain e ns = foldl PropertyAccessExpression e ns"

section \<open>Strings\<close>

text \<open>
  \<^verbatim>\<open>s.startsWith(p)\<close>, \<^verbatim>\<open>s.endsWith(p)\<close>, \<^verbatim>\<open>s.trim()\<close> for the white space of ASCII,
  \<^verbatim>\<open>s.split(c)\<close> at a character, and \<^verbatim>\<open>pieces.join(sep)\<close>.
\<close>

definition startsWith :: "string \<Rightarrow> string \<Rightarrow> bool" where
  "startsWith s p = (take (length p) s = p)"

definition endsWith :: "string \<Rightarrow> string \<Rightarrow> bool" where
  "endsWith s p = (drop (length s - length p) s = p)"

definition isSpace :: "char \<Rightarrow> bool" where
  "isSpace c = (c = CHR '' '' \<or> c = CHR ''\<newline>'' \<or> c = CHR 0x09 \<or> c = CHR 0x0D)"

definition trim :: "string \<Rightarrow> string" where
  "trim s = rev (dropWhile isSpace (rev (dropWhile isSpace s)))"

fun splitOn :: "char \<Rightarrow> string \<Rightarrow> string list" where
  "splitOn c [] = [[]]"
| "splitOn c (x # xs) =
     (if x = c then [] # splitOn c xs
      else (case splitOn c xs of [] \<Rightarrow> [[x]] | p # ps \<Rightarrow> (x # p) # ps))"

fun joinWith :: "string \<Rightarrow> string list \<Rightarrow> string" where
  "joinWith sep [] = []"
| "joinWith sep [x] = x"
| "joinWith sep (x # y # ys) = x @ sep @ joinWith sep (y # ys)"

section \<open>Statements and functions\<close>

datatype declarationKind = Const | Let | Var

text \<open>
  The statements the updater tells apart: a return, a variable statement with its
  declarations (name and initializer), an expression statement, and any other node kind
  (named by \<^verbatim>\<open>getKindName()\<close>, such as \<^verbatim>\<open>IfStatement\<close> or \<^verbatim>\<open>Block\<close>) together with the
  statements nested in it.  The expressions of a return, a variable statement or an
  expression statement may hold functions; \<open>FunctionsIn\<close> pairs such a statement with the
  statements of those functions, where the body of a single-expression arrow function
  stands as an expression statement.
\<close>

datatype stmt =
    ReturnStatement "expr option"
  | VariableStatement declarationKind "(string \<times> expr option) list"
  | ExpressionStatement expr
  | NestedStatement string "stmt list"
  | FunctionsIn stmt "stmt list"

datatype funcKind = MethodDeclaration | FunctionDeclaration | FunctionExpression | ArrowFunction

text \<open>
  An arrow function has a block or a single expression as its body; the expression comes
  with the statements of the functions nested in it.
\<close>

datatype funcBody = Block "stmt list" | ConciseBody expr "stmt list"

text \<open>
  A parameter name is an identifier or a binding pattern.  The updater edits an object
  binding pattern through its text (\<^verbatim>\<open>getFullText()\<close>, \<^verbatim>\<open>replaceWithText\<close>), so a pattern is
  its source text, from the opening to the closing brace.
\<close>

datatype bindingName =
    BindingIdentifier string
  | ObjectBindingPattern string
  | ArrayBindingPattern string

record parameter =
  nameNode :: bindingName
  typeNode :: "string option"

record func =
  kind :: funcKind
  parameters :: "parameter list"
  body :: funcBody

text \<open>\<^verbatim>\<open>params[i].getName()\<close>: the identifier, or the text of the pattern.\<close>

fun getName :: "bindingName \<Rightarrow> string" where
  "getName (BindingIdentifier n) = n"
| "getName (ObjectBindingPattern t) = t"
| "getName (ArrayBindingPattern t) = t"

text \<open>
  The elements of an object binding pattern (\<^verbatim>\<open>getElements()\<close>), read off its text: the
  text between the braces is cut at the commas, and each piece holds one element between
  white space.  The name of an element (\<^verbatim>\<open>binding.getName()\<close>) is what it binds: in
  \<^verbatim>\<open>prop: name\<close> the part after the colon, without a default value and without the dots
  of a rest element.  Elements that are patterns themselves are not told apart.
\<close>

definition patternPieces :: "string \<Rightarrow> string list" where
  "patternPieces t = splitOn (CHR '','') (butlast (tl t))"

definition getElements :: "string \<Rightarrow> string list" where
  "getElements t = filter (\<lambda>el. el \<noteq> []) (map trim (patternPieces t))"

definition elementName :: "string \<Rightarrow> string" where
  "elementName el =
     trim (dropWhile (\<lambda>c. c = CHR ''.'')
       (trim (takeWhile (\<lambda>c. c \<noteq> CHR ''='')
          (if CHR '':'' \<in> set el then drop 1 (dropWhile (\<lambda>c. c \<noteq> CHR '':'') el) else el))))"

section \<open>Import state\<close>

text \<open>
  The three JavaScript sets of names collected for one file.  A \<^verbatim>\<open>Set\<close> keeps its elements
  in insertion order, so each is a list without repetition.
\<close>

record importState =
  core :: "string list"
  runtime :: "string list"
  compat :: "string list"

definition emptyImports :: importState where
  "emptyImports = \<lparr>core = [], runtime = [], compat = []\<rparr>"

definition setAdd :: "string \<Rightarrow> string list \<Rightarrow> string list" where
  "setAdd x s = (if x \<in> set s then s else s @ [x])"

definition setDelete :: "string \<Rightarrow> string list \<Rightarrow> string list" where
  "setDelete x s = removeAll x s"

section \<open>Parameter normalizer\<close>

definition identParam :: "string \<Rightarrow> string option \<Rightarrow> parameter" where
  "identParam n t = \<lparr>nameNode = BindingIdentifier n, typeNode = t\<rparr>"

text \<open>The initializers \<^verbatim>\<open>ctx.req\<close> and \<^verbatim>\<open>info.remoteAddr\<close> of the inserted declarations.\<close>

definition ctx_req :: expr where
  "ctx_req = PropertyAccessExpression (Identifier ''ctx'') ''req''"

definition info_remoteAddr :: expr where
  "info_remoteAddr = PropertyAccessExpression (Identifier ''info'') ''remoteAddr''"

text \<open>\<^verbatim>\<open>method.insertVariableStatement(0, { declarationKind: Const, ... })\<close> on a block body.\<close>

fun insertVariableStatement :: "string \<Rightarrow> expr \<Rightarrow> funcBody \<Rightarrow> funcBody" where
  "insertVariableStatement n init (Block ss) = Block (VariableStatement Const [(n, Some init)] # ss)"
| "insertVariableStatement n init (ConciseBody e fs) = ConciseBody e fs"

text \<open>
  Lines 520 to 548: the edit of the parameter list.  \<^verbatim>\<open>params[0].replaceWithText("ctx")\<close>
  replaces the whole first parameter, its type annotation included; \<^verbatim>\<open>params[0].remove()\<close>
  drops it, after which the second parameter may have its \<^verbatim>\<open>RouteContext\<close> type renamed.
  The flag is \<^verbatim>\<open>hasInferredTypes\<close> after line 524 to 526.
\<close>

definition editParameters ::
  "bool \<Rightarrow> parameter list \<Rightarrow> importState \<Rightarrow> parameter list \<times> importState" where
  "editParameters hasInferredTypes params newImports =
     (let paramName = getName (nameNode (hd params));
          hasRequestVar = (length params > 1 \<or> paramName = ''req'')
      in if hasRequestVar \<or> paramName = ''_req'' then
           (if hasRequestVar \<and> length params = 1 then
              (if \<not> hasInferredTypes
               then ([identParam ''ctx'' (Some ''FreshContext'')],
                     newImports\<lparr>core := setAdd ''FreshContext'' (core newImports)\<rparr>)
               else ([identParam ''ctx'' None], newImports))
            else
              (if length params > 1 \<and> typeNode (params ! 1) = Some ''RouteContext''
               then ((params ! 1)\<lparr>typeNode := Some ''FreshContext''\<rparr> # drop 2 params,
                     newImports\<lparr>core := setAdd ''FreshContext'' (core newImports)\<rparr>)
               else (tl params, newImports)))
         else (params, newImports))"

text \<open>
  Lines 581 to 595, on the text of the pattern.  Every element bound to the name
  \<^verbatim>\<open>remoteAddr\<close> is replaced by the text \<^verbatim>\<open>info\<close>, the white space around it staying in
  place.  Then \<^verbatim>\<open>getFullText().slice(0, -2) + ", req }"\<close> cuts the last two characters of
  the text, whatever they are, and appends \<^verbatim>\<open>, req }\<close>.
\<close>

definition renamePiece :: "string \<Rightarrow> string" where
  "renamePiece piece =
     (if elementName (trim piece) = ''remoteAddr'' \<and> trim piece \<noteq> []
      then takeWhile isSpace piece @ ''info'' @ rev (takeWhile isSpace (rev piece))
      else piece)"

definition renameRemoteAddr :: "string \<Rightarrow> string" where
  "renameRemoteAddr t = ''{'' @ joinWith '','' (map renamePiece (patternPieces t)) @ ''}''"

definition spliceReq :: "string \<Rightarrow> string" where
  "spliceReq txt = take (length txt - 2) txt @ '', req }''"

text \<open>
  \<^verbatim>\<open>maybePrependReqVar(method, newImports, hasInferredTypes)\<close>.  The function and the import
  state are mutated in the source and returned here.  \<^verbatim>\<open>maybeObjBinding\<close> is the name node
  of the second parameter of the original list, which after the removal of the first
  parameter is the first of the edited list.  Functions of the model always have a body.
\<close>

definition maybePrependReqVar :: "func \<Rightarrow> importState \<Rightarrow> bool \<Rightarrow> func \<times> importState" where
  "maybePrependReqVar method newImports hasInferredTypes0 =
     (let params = parameters method in
      if params = [] then (method, newImports)
      else
        let paramName = getName (nameNode (hd params));
            hasInferredTypes = (if hasInferredTypes0 \<and> typeNode (hd params) \<noteq> None
                                then False else hasInferredTypes0);
            hasRequestVar = (length params > 1 \<or> paramName = ''req'');
            (params1, newImports1) = editParameters hasInferredTypes params newImports;
            method1 = method\<lparr>parameters := params1\<rparr>;
            maybeObjBinding = (if length params > 1 then Some (nameNode (params ! 1)) else None)
        in if kind method = ArrowFunction \<and>
              (case body method of Block ss \<Rightarrow> False | ConciseBody e fs \<Rightarrow> True)
           then (method1, newImports1)
           else
             (case maybeObjBinding of
                Some (ObjectBindingPattern txt) \<Rightarrow>
                  (if getElements txt \<noteq> [] then
                     (let needsRemoteAddr =
                            (''remoteAddr'' \<in> set (map elementName (getElements txt)));
                          txt1 = renameRemoteAddr txt;
                          txt2 = (if hasRequestVar \<and> \<not> startsWith paramName ''_''
                                  then spliceReq txt1 else txt1);
                          params2 = (hd params1)\<lparr>nameNode := ObjectBindingPattern txt2\<rparr> # tl params1;
                          method2 = method1\<lparr>parameters := params2\<rparr>
                      in if needsRemoteAddr
                         then (method2\<lparr>body := insertVariableStatement ''remoteAddr'' info_remoteAddr
                                                  (body method2)\<rparr>, newImports1)
                         else (method2, newImports1))
                   else (method1, newImports1))
              | _ \<Rightarrow>
                  (if hasRequestVar \<and> \<not> startsWith paramName ''_''
                   then (method1\<lparr>body := insertVariableStatement paramName ctx_req (body method1)\<rparr>,
                         newImports1)
                   else (method1, newImports1))))"

section \<open>Statement walker\<close>

text \<open>
  \<^verbatim>\<open>rewriteCtxMethods([node])\<close> on an expression node.  A property access goes to the
  member-access rewriter together with its parent; a call or an await expression recurses
  into \<^verbatim>\<open>node.getExpression()\<close>, a binary expression into both operands; every other
  expression is left alone.
\<close>

fun rewriteCtxNode :: "parent \<Rightarrow> expr \<Rightarrow> parent \<times> expr" where
  "rewriteCtxNode par (PropertyAccessExpression e n) =
     rewriteCtxMemberName par (PropertyAccessExpression e n)"
| "rewriteCtxNode par (CallExpression f args) =
     (par, plug (fst (rewriteCtxNode (CalleeOf args) f)) (snd (rewriteCtxNode (CalleeOf args) f)))"
| "rewriteCtxNode par (AwaitExpression e) =
     (par, AwaitExpression (snd (rewriteCtxNode OtherParent e)))"
| "rewriteCtxNode par (BinaryExpression l op r) =
     (par, BinaryExpression (snd (rewriteCtxNode OtherParent l)) op
             (snd (rewriteCtxNode OtherParent r)))"
| "rewriteCtxNode par e = (par, e)"

definition rewriteCtxExpr :: "expr \<Rightarrow> expr" where
  "rewriteCtxExpr e = snd (rewriteCtxNode OtherParent e)"

text \<open>
  \<^verbatim>\<open>rewriteCtxMethods(body.getDescendantStatements())\<close>.  The list holds every statement
  below the body at any depth, those of nested functions included, and the expression
  bodies of nested arrow functions.  The loop rewrites the expression of a return, of an
  expression statement and of the initializers of a variable statement; for a node of
  another kind whose kind name ends in \<^verbatim>\<open>Statement\<close> it runs itself on that node's own
  descendant statements, which are also entries of the list it is working through.  So a
  statement below a node of such a kind is rewritten twice as often as that node, and a
  statement of a function nested in the expressions of a statement as often as that
  statement: \<open>n\<close> counts the rewrites of one statement.
\<close>

fun rewriteCtxStmt :: "nat \<Rightarrow> stmt \<Rightarrow> stmt" where
  "rewriteCtxStmt n (ReturnStatement eo) = ReturnStatement (map_option (rewriteCtxExpr ^^ n) eo)"
| "rewriteCtxStmt n (VariableStatement k decls) =
     VariableStatement k (map (\<lambda>(name, init). (name, map_option (rewriteCtxExpr ^^ n) init)) decls)"
| "rewriteCtxStmt n (ExpressionStatement e) = ExpressionStatement ((rewriteCtxExpr ^^ n) e)"
| "rewriteCtxStmt n (NestedStatement k ss) =
     NestedStatement k
       (map (rewriteCtxStmt (if endsWith k ''Statement'' then 2 * n else n)) ss)"
| "rewriteCtxStmt n (FunctionsIn s ss) =
     FunctionsIn (rewriteCtxStmt n s) (map (rewriteCtxStmt n) ss)"

definition rewriteCtxMethods :: "stmt list \<Rightarrow> stmt list" where
  "rewriteCtxMethods stmts = map (rewriteCtxStmt 1) stmts"

section \<open>Handler rewriting\<close>

text \<open>
  The exported declarations that lines 298 to 392 look at: a variable whose initializer is
  an object literal of methods and property assignments, a function declaration, and a
  call whose callee and arguments are inspected.
\<close>

datatype propertyInit = PropertyFunction func | PropertyOther string

datatype objectProperty =
    MethodProperty string func
  | PropertyAssignment string propertyInit
  | OtherProperty string

datatype varInit =
    ObjectLiteralExpression "objectProperty list"
  | OtherInitializer string
  | NoInitializer

datatype callArg = FunctionArgument func | OtherArgument string

datatype exportedDecl =
    VariableDeclaration varInit
  | FunctionDecl func
  | CallDecl expr "callArg list"
  | OtherDecl string

text \<open>
  The steps taken for one function: the walker over the statements of its body, then the
  parameter normalizer.  The descendant statements of a single-expression body are those
  of the functions nested in the expression; the expression itself is not in the list.
\<close>

fun rewriteBody :: "funcBody \<Rightarrow> funcBody" where
  "rewriteBody (Block ss) = Block (rewriteCtxMethods ss)"
| "rewriteBody (ConciseBody e fs) = ConciseBody e (rewriteCtxMethods fs)"

definition rewriteFunction :: "func \<Rightarrow> importState \<Rightarrow> bool \<Rightarrow> func \<times> importState" where
  "rewriteFunction f newImports hasInferredTypes =
     maybePrependReqVar (f\<lparr>body := rewriteBody (body f)\<rparr>) newImports hasInferredTypes"

definition httpMethods :: "string list" where
  "httpMethods = [''GET'', ''POST'', ''PATCH'', ''PUT'', ''DELETE'']"

fun rewriteProperty :: "objectProperty \<Rightarrow> importState \<Rightarrow> objectProperty \<times> importState" where
  "rewriteProperty (MethodProperty name f) newImports =
     (if name \<in> set httpMethods
      then (MethodProperty name (fst (rewriteFunction f newImports True)),
            snd (rewriteFunction f newImports True))
      else (MethodProperty name f, newImports))"
| "rewriteProperty (PropertyAssignment name (PropertyFunction f)) newImports =
     (PropertyAssignment name (PropertyFunction (fst (rewriteFunction f newImports True))),
      snd (rewriteFunction f newImports True))"
| "rewriteProperty p newImports = (p, newImports)"

fun rewriteProperties ::
  "objectProperty list \<Rightarrow> importState \<Rightarrow> objectProperty list \<times> importState" where
  "rewriteProperties [] newImports = ([], newImports)"
| "rewriteProperties (p # ps) newImports =
     (fst (rewriteProperty p newImports) #
        fst (rewriteProperties ps (snd (rewriteProperty p newImports))),
      snd (rewriteProperties ps (snd (rewriteProperty p newImports))))"

definition wrapperNames :: "string list" where
  "wrapperNames = [''defineApp'', ''defineLayout'', ''defineRoute'']"

text \<open>The branch for the export named \<^verbatim>\<open>handler\<close> (lines 303 to 352).\<close>

fun rewriteHandlerExport :: "exportedDecl \<Rightarrow> importState \<Rightarrow> exportedDecl \<times> importState" where
  "rewriteHandlerExport (VariableDeclaration (ObjectLiteralExpression props)) newImports =
     (VariableDeclaration (ObjectLiteralExpression (fst (rewriteProperties props newImports))),
      snd (rewriteProperties props newImports))"
| "rewriteHandlerExport (FunctionDecl f) newImports =
     (FunctionDecl (fst (rewriteFunction f newImports False)),
      snd (rewriteFunction f newImports False))"
| "rewriteHandlerExport d newImports = (d, newImports)"

text \<open>The branch for the default export (lines 353 to 390).\<close>

fun rewriteDefaultExport :: "exportedDecl \<Rightarrow> importState \<Rightarrow> exportedDecl \<times> importState" where
  "rewriteDefaultExport (CallDecl (Identifier t) (FunctionArgument f # args)) newImports =
     (if t \<in> set wrapperNames
      then (CallDecl (Identifier t)
              (FunctionArgument (fst (rewriteFunction f newImports False)) # args),
            snd (rewriteFunction f newImports False))
      else (CallDecl (Identifier t) (FunctionArgument f # args), newImports))"
| "rewriteDefaultExport (FunctionDecl f) newImports =
     (FunctionDecl (fst (rewriteFunction f newImports False)),
      snd (rewriteFunction f newImports False))"
| "rewriteDefaultExport d newImports = (d, newImports)"

definition rewriteExport ::
  "string \<Rightarrow> exportedDecl \<Rightarrow> importState \<Rightarrow> exportedDecl \<times> importState" where
  "rewriteExport name d newImports =
     (if name = ''handler'' then rewriteHandlerExport d newImports
      else if name = ''default'' then rewriteDefaultExport d newImports
      else (d, newImports))"

section \<open>Import rewriter\<close>

record importSpecifier =
  importedName :: string
  importAlias :: "string option"

record importDeclaration =
  moduleSpecifier :: string
  defaultImport :: "string option"
  namespaceImport :: "string option"
  namedImports :: "importSpecifier list"

text \<open>
  The one failure of the library that the import rewriter can run into: ts-morph refuses
  to add a named import to a declaration that has a namespace import.
\<close>

datatype error = InvalidOperationError

text \<open>The module-level set \<^verbatim>\<open>compat\<close> of lines 112 to 123.\<close>

definition compatNames :: "string list" where
  "compatNames = [''defineApp'', ''defineLayout'', ''defineRoute'', ''AppProps'',
     ''ErrorPageProps'', ''Handler'', ''Handlers'', ''LayoutProps'', ''RouteContext'',
     ''UnknownPageProps'']"

definition namedImport :: "string \<Rightarrow> importSpecifier" where
  "namedImport n = \<lparr>importedName = n, importAlias = None\<rparr>"

text \<open>\<^verbatim>\<open>d.addNamedImport(name)\<close>.\<close>

definition addNamedImport :: "string \<Rightarrow> importDeclaration \<Rightarrow> error + importDeclaration" where
  "addNamedImport n d =
     (if namedImports d = [] \<and> namespaceImport d \<noteq> None then Inl InvalidOperationError
      else Inr (d\<lparr>namedImports := namedImports d @ [namedImport n]\<rparr>))"

text \<open>\<^verbatim>\<open>names.forEach((name) => d.addNamedImport(name))\<close>, stopping at the first failure.\<close>

fun addNamedImports :: "string list \<Rightarrow> importDeclaration \<Rightarrow> error + importDeclaration" where
  "addNamedImports [] d = Inr d"
| "addNamedImports (n # ns) d =
     (case addNamedImport n d of Inl e \<Rightarrow> Inl e | Inr d' \<Rightarrow> addNamedImports ns d')"

text \<open>
  \<^verbatim>\<open>removeEmptyImport(d)\<close>: the declaration is removed (\<open>None\<close>) when it has no named,
  namespace or default import.
\<close>

definition removeEmptyImport :: "importDeclaration \<Rightarrow> importDeclaration option" where
  "removeEmptyImport d =
     (if namedImports d = [] \<and> namespaceImport d = None \<and> defaultImport d = None
      then None else Some d)"

text \<open>The variables of \<^verbatim>\<open>updateFile\<close> that the loop over the import declarations updates.\<close>

record importLoop =
  hasCoreImport :: bool
  hasRuntimeImport :: bool
  modified :: bool
  removedJsxImports :: "string list"
  newImportSets :: importState

definition isJsxImport :: "importSpecifier \<Rightarrow> bool" where
  "isJsxImport n = (importedName n = ''h'' \<or> importedName n = ''Fragment'')"

text \<open>
  The body of the loop of lines 398 to 446 for one declaration: the declaration as it is
  left in the file (\<open>None\<close> when removed) and the updated variables, or the error thrown.
\<close>

definition rewriteImport ::
  "importDeclaration \<Rightarrow> importLoop \<Rightarrow> error + (importDeclaration option \<times> importLoop)" where
  "rewriteImport d st =
     (let specifier = moduleSpecifier d in
      if specifier = ''preact'' then
        (let removed = filter isJsxImport (namedImports d);
             d1 = d\<lparr>namedImports := filter (\<lambda>n. \<not> isJsxImport n) (namedImports d)\<rparr>
         in Inr (removeEmptyImport d1,
                 st\<lparr>modified := (modified st \<or> removed \<noteq> []),
                    removedJsxImports := removedJsxImports st @ map importedName removed\<rparr>))
      else if specifier = ''$fresh/server.ts'' then
        (let names = map importedName (namedImports d);
             core1 = foldl (\<lambda>s n. setDelete n s) (core (newImportSets st)) names;
             compat1 = foldl (\<lambda>s n. if n \<in> set compatNames then setAdd n s else s)
                         (compat (newImportSets st)) names;
             d1 = d\<lparr>moduleSpecifier := ''fresh'',
                    namedImports := filter (\<lambda>n. importedName n \<notin> set compatNames) (namedImports d)\<rparr>;
             st1 = st\<lparr>hasCoreImport := True,
                      newImportSets := (newImportSets st)\<lparr>core := core1, compat := compat1\<rparr>\<rparr>
         in case addNamedImports core1 d1 of
              Inl e \<Rightarrow> Inl e
            | Inr d2 \<Rightarrow> Inr (removeEmptyImport d2, st1))
      else if specifier = ''$fresh/runtime.ts'' then
        (let names = map importedName (namedImports d);
             runtime1 = foldl (\<lambda>s n. setDelete n s) (runtime (newImportSets st)) names;
             d1 = d\<lparr>moduleSpecifier := ''fresh/runtime''\<rparr>;
             st1 = st\<lparr>hasRuntimeImport := True,
                      newImportSets := (newImportSets st)\<lparr>runtime := runtime1\<rparr>\<rparr>
         in case addNamedImports runtime1 d1 of
              Inl e \<Rightarrow> Inl e
            | Inr d2 \<Rightarrow> Inr (removeEmptyImport d2, st1))
      else Inr (Some d, st))"

section \<open>Source files\<close>

text \<open>
  A source file is its path and the sequence of its top-level items: the import
  declarations, the exported declarations under their export names, and in between the text
  that the updater never looks into as a tree (comments, directives, other statements).
  The text of a file and its items determine each other in the model.
\<close>

datatype topLevel =
    Trivia string
  | ImportDeclaration importDeclaration
  | ExportedDeclaration string exportedDecl

record sourceFile =
  filePath :: string
  statements :: "topLevel list"

fun getImportDeclarations :: "topLevel list \<Rightarrow> importDeclaration list" where
  "getImportDeclarations [] = []"
| "getImportDeclarations (ImportDeclaration d # items) = d # getImportDeclarations items"
| "getImportDeclarations (item # items) = getImportDeclarations items"

text \<open>The loop over \<^verbatim>\<open>sourceFile.getImportDeclarations()\<close>, in the order of the file.\<close>

fun rewriteImports :: "topLevel list \<Rightarrow> importLoop \<Rightarrow> error + (topLevel list \<times> importLoop)" where
  "rewriteImports [] st = Inr ([], st)"
| "rewriteImports (ImportDeclaration d # items) st =
     (case rewriteImport d st of
        Inl e \<Rightarrow> Inl e
      | Inr (d', st') \<Rightarrow>
          (case rewriteImports items st' of
             Inl e \<Rightarrow> Inl e
           | Inr (items', st'') \<Rightarrow>
               Inr ((case d' of None \<Rightarrow> items' | Some d1 \<Rightarrow> ImportDeclaration d1 # items'), st'')))"
| "rewriteImports (item # items) st =
     (case rewriteImports items st of
        Inl e \<Rightarrow> Inl e
      | Inr (items', st') \<Rightarrow> Inr (item # items', st'))"

text \<open>
  \<^verbatim>\<open>sourceFile.addImportDeclaration({ moduleSpecifier, namedImports })\<close>: the new
  declaration goes after the last import declaration, or to the top of a file without one.
\<close>

fun isImportDeclaration :: "topLevel \<Rightarrow> bool" where
  "isImportDeclaration (ImportDeclaration d) = True"
| "isImportDeclaration item = False"

definition afterLastImport :: "topLevel list \<Rightarrow> nat" where
  "afterLastImport items = length items - length (takeWhile (\<lambda>i. \<not> isImportDeclaration i) (rev items))"

definition newImportDeclaration :: "string \<Rightarrow> string list \<Rightarrow> importDeclaration" where
  "newImportDeclaration spec names =
     \<lparr>moduleSpecifier = spec, defaultImport = None, namespaceImport = None,
      namedImports = map namedImport names\<rparr>"

definition addImportDeclaration :: "string \<Rightarrow> string list \<Rightarrow> topLevel list \<Rightarrow> topLevel list" where
  "addImportDeclaration spec names items =
     (if getImportDeclarations items = []
      then ImportDeclaration (newImportDeclaration spec names) # items
      else take (afterLastImport items) items @
           ImportDeclaration (newImportDeclaration spec names) # drop (afterLastImport items) items)"

text \<open>
  Lines 448 to 465.  The declaration synthesized for \<^verbatim>\<open>fresh/runtime\<close> takes its names
  from the core set, as line 457 does.
\<close>

definition synthesizeImports :: "importLoop \<Rightarrow> topLevel list \<Rightarrow> topLevel list" where
  "synthesizeImports st items =
     (let items1 = (if \<not> hasCoreImport st \<and> core (newImportSets st) \<noteq> []
                    then addImportDeclaration ''fresh'' (core (newImportSets st)) items else items);
          items2 = (if \<not> hasRuntimeImport st \<and> runtime (newImportSets st) \<noteq> []
                    then addImportDeclaration ''fresh/runtime'' (core (newImportSets st)) items1
                    else items1)
      in if compat (newImportSets st) \<noteq> []
         then addImportDeclaration ''fresh/compat'' (compat (newImportSets st)) items2
         else items2)"

definition initialLoop :: "importState \<Rightarrow> importLoop" where
  "initialLoop imports =
     \<lparr>hasCoreImport = False, hasRuntimeImport = False, modified = False,
      removedJsxImports = [], newImportSets = imports\<rparr>"

text \<open>Lines 394 to 465 as one step, from the import state that the handler rewriting left.\<close>

definition rewriteImportStage ::
  "importState \<Rightarrow> topLevel list \<Rightarrow> error + (topLevel list \<times> importLoop)" where
  "rewriteImportStage imports items =
     (case rewriteImports items (initialLoop imports) of
        Inl e \<Rightarrow> Inl e
      | Inr (items', st) \<Rightarrow> Inr (synthesizeImports st items', st))"

section \<open>File update\<close>

text \<open>\<^verbatim>\<open>text.replaceAll(pat, "")\<close> for a non-empty pattern, scanning from the left.\<close>

fun removeAllOccurrences :: "string \<Rightarrow> string \<Rightarrow> string" where
  "removeAllOccurrences pat [] = []"
| "removeAllOccurrences pat (c # cs) =
     (if pat \<noteq> [] \<and> startsWith (c # cs) pat
      then removeAllOccurrences pat (drop (length pat) (c # cs))
      else c # removeAllOccurrences pat cs)"

text \<open>The chain of replacements of lines 285 to 292, in its order.\<close>

definition stripDirectives :: "string \<Rightarrow> string" where
  \<open>stripDirectives text =
     removeAllOccurrences ''/// <reference lib="deno.ns" />\<newline>''
      (removeAllOccurrences ''/// <reference lib="dom.asynciterable" />\<newline>''
        (removeAllOccurrences ''/// <reference lib="dom.iterable" />\<newline>''
          (removeAllOccurrences ''/// <reference lib="dom" />\<newline>''
            (removeAllOccurrences ''/// <reference no-default-lib="true" />\<newline>''
              (removeAllOccurrences ''/** @jsxFrag Fragment */\<newline>''
                (removeAllOccurrences ''/** @jsx h */\<newline>'' text))))))\<close>

text \<open>
  The stripped text is parsed again by \<^verbatim>\<open>sourceFile.replaceWithText(text)\<close>.  The directives
  are comment lines, which lie in the text between the declarations, so the model strips
  each piece of such text and keeps the declarations; comments inside a declaration are
  not part of the model.  The replacement keeps every other character, a carriage return
  before a line feed included: a line that ends with the two is not a match.  The line
  ends that the next run reads are those that the formatter of \<open>updateAndFormat\<close> writes.
\<close>

fun stripItem :: "topLevel \<Rightarrow> topLevel" where
  "stripItem (Trivia t) = Trivia (stripDirectives t)"
| "stripItem item = item"

text \<open>\<^verbatim>\<open>s.includes(sub)\<close> and \<^verbatim>\<open>sourceFile.getDirectoryPath()\<close>.\<close>

fun includesText :: "string \<Rightarrow> string \<Rightarrow> bool" where
  "includesText [] sub = (sub = [])"
| "includesText (c # cs) sub = (startsWith (c # cs) sub \<or> includesText cs sub)"

definition getDirectoryPath :: "string \<Rightarrow> string" where
  "getDirectoryPath p = rev (drop 1 (dropWhile (\<lambda>c. c \<noteq> CHR ''/'') (rev p)))"

text \<open>
  The loop over \<^verbatim>\<open>sourceFile.getExportedDeclarations()\<close>: each export name is met once,
  with the first of its declarations (\<^verbatim>\<open>decl[0]\<close>); \<open>seen\<close> holds the names already met.
\<close>

fun rewriteExports ::
  "string list \<Rightarrow> topLevel list \<Rightarrow> importState \<Rightarrow> topLevel list \<times> importState" where
  "rewriteExports seen [] imports = ([], imports)"
| "rewriteExports seen (ExportedDeclaration name d # items) imports =
     (if name \<in> set seen
      then (ExportedDeclaration name d # fst (rewriteExports seen items imports),
            snd (rewriteExports seen items imports))
      else (ExportedDeclaration name (fst (rewriteExport name d imports)) #
              fst (rewriteExports (name # seen) items (snd (rewriteExport name d imports))),
            snd (rewriteExports (name # seen) items (snd (rewriteExport name d imports)))))"
| "rewriteExports seen (item # items) imports =
     (item # fst (rewriteExports seen items imports), snd (rewriteExports seen items imports))"

text \<open>The guard of lines 298 to 301 and the handler rewriting under it.\<close>

definition isRouteFile :: "string \<Rightarrow> bool" where
  "isRouteFile p = (includesText p ''/routes/'' \<and> \<not> includesText (getDirectoryPath p) ''/(_'')"

definition rewriteHandlers :: "string \<Rightarrow> topLevel list \<Rightarrow> topLevel list \<times> importState" where
  "rewriteHandlers p items =
     (if isRouteFile p then rewriteExports [] items emptyImports else (items, emptyImports))"

text \<open>
  \<^verbatim>\<open>updateFile\<close>: the directive stripping, the handler rewriting, the import rewriting.  The
  result is the thrown error, or the flag \<^verbatim>\<open>wasModified\<close> with the file as saved; the
  comparison of the final with the original text is the comparison of the items.  The
  formatter that runs afterwards comes with \<open>updateAndFormat\<close> below.
\<close>

definition updateFile :: "sourceFile \<Rightarrow> error + (bool \<times> sourceFile)" where
  "updateFile sf =
     (let items1 = map stripItem (statements sf);
          handled = rewriteHandlers (filePath sf) items1
      in case rewriteImportStage (snd handled) (fst handled) of
           Inl e \<Rightarrow> Inl e
         | Inr (items3, st) \<Rightarrow>
             Inr (items3 \<noteq> statements sf \<or> modified st, sf\<lparr>statements := items3\<rparr>))"


section \<open>Project update: the files\<close>

text \<open>
  One entry of \<^verbatim>\<open>results\<close> (lines 200 to 225): the value that the per-file task
  returns, whether \<^verbatim>\<open>updateFile\<close> came back or threw.
\<close>

record fileResult =
  success :: bool
  wasModified :: bool
  resultPath :: string
  thrown :: "error option"

definition fileTask :: "sourceFile \<Rightarrow> fileResult" where
  "fileTask sf =
     (case updateFile sf of
        Inr (m, sf') \<Rightarrow> \<lparr>success = True, wasModified = m, resultPath = filePath sf, thrown = None\<rparr>
      | Inl e \<Rightarrow> \<lparr>success = False, wasModified = False, resultPath = filePath sf, thrown = Some e\<rparr>)"

text \<open>The counters \<^verbatim>\<open>processedCount\<close> and \<^verbatim>\<open>modifiedCount\<close>, stepped by each task that succeeds.\<close>

definition countTask :: "nat \<times> nat \<Rightarrow> fileResult \<Rightarrow> nat \<times> nat" where
  "countTask c r =
     (if success r then (fst c + 1, if wasModified r then snd c + 1 else snd c) else c)"

record summary =
  configUpdated :: bool
  filesProcessed :: nat
  filesModified :: nat
  errors :: nat

text \<open>
  What the task leaves on disk: the rewritten file, or the file as it was when
  \<^verbatim>\<open>updateFile\<close> threw before reaching \<^verbatim>\<open>sourceFile.save()\<close>.
\<close>

definition savedFile :: "sourceFile \<Rightarrow> sourceFile" where
  "savedFile sf = (case updateFile sf of Inr (m, sf') \<Rightarrow> sf' | Inl e \<Rightarrow> sf)"

text \<open>
  Phase 2 of \<^verbatim>\<open>updateProject\<close>, from the result of the configuration update and the
  source files found: the summary returned, the paths listed as failed, and the files on
  disk afterwards.  Every task catches its own error, so \<^verbatim>\<open>Promise.all\<close> waits for all of
  them and yields one result per file.
\<close>

definition updateProjectFiles ::
  "bool \<Rightarrow> sourceFile list \<Rightarrow> summary \<times> string list \<times> sourceFile list" where
  "updateProjectFiles configResult sfs =
     (let results = map fileTask sfs;
          counts = foldl countTask (0, 0) results;
          failed = filter (\<lambda>r. \<not> success r) results
      in (\<lparr>configUpdated = configResult, filesProcessed = fst counts,
           filesModified = snd counts, errors = length failed\<rparr>,
          map resultPath failed,
          map savedFile sfs))"

section \<open>Manifest update\<close>

text \<open>
  A JSON document as \<^verbatim>\<open>JSONC.parse\<close> returns it.  An object keeps its keys in insertion
  order; a number is kept as its text.
\<close>

datatype json =
    JNull
  | JBool bool
  | JNumber string
  | JString string
  | JArray "json list"
  | JObject "(string \<times> json) list"

definition FRESH_VERSION :: string where "FRESH_VERSION = ''2.0.0-alpha.34''"
definition PREACT_VERSION :: string where "PREACT_VERSION = ''10.26.6''"
definition PREACT_SIGNALS_VERSION :: string where "PREACT_SIGNALS_VERSION = ''2.0.4''"

datatype manifestError = TypeError | SyntaxError

text \<open>
  Lines 131 to 141 on the value of \<^verbatim>\<open>config.imports\<close>.  A missing value or a value that is
  not an object is replaced by \<^verbatim>\<open>{}\<close>; on \<^verbatim>\<open>null\<close> the first assignment throws; an array
  is an object whose named properties are not serialized, so it stays as it is.
\<close>

definition editImportMap :: "(string \<times> json) list \<Rightarrow> (string \<times> json) list" where
  "editImportMap m =
     AList.delete ''preact-render-to-string''
      (AList.delete ''@preact/signals-core''
        (AList.delete ''$fresh/''
          (AList.update ''@preact/signals'' (JString (''npm:@preact/signals@^'' @ PREACT_SIGNALS_VERSION))
            (AList.update ''preact'' (JString (''npm:preact@^'' @ PREACT_VERSION))
              (AList.update ''fresh'' (JString (''jsr:@fresh/core@^'' @ FRESH_VERSION)) m)))))"

fun editImportsValue :: "json option \<Rightarrow> manifestError + json" where
  "editImportsValue None = Inr (JObject (editImportMap []))"
| "editImportsValue (Some JNull) = Inl TypeError"
| "editImportsValue (Some (JObject m)) = Inr (JObject (editImportMap m))"
| "editImportsValue (Some (JArray xs)) = Inr (JArray xs)"
| "editImportsValue (Some v) = Inr (JObject (editImportMap []))"

text \<open>Lines 149 to 174 on the object \<^verbatim>\<open>config.tasks\<close>.\<close>

definition deleteIf :: "string \<Rightarrow> string list \<Rightarrow> (string \<times> json) list \<Rightarrow> (string \<times> json) list" where
  "deleteIf k olds t =
     (if map_of t k \<in> set (map (\<lambda>v. Some (JString v)) olds) then AList.delete k t else t)"

definition replaceIf :: "string \<Rightarrow> string \<Rightarrow> string \<Rightarrow> (string \<times> json) list \<Rightarrow> (string \<times> json) list" where
  "replaceIf k old new t =
     (if map_of t k = Some (JString old) then AList.update k (JString new) t else t)"

definition editTaskMap :: "(string \<times> json) list \<Rightarrow> (string \<times> json) list" where
  \<open>editTaskMap t =
     replaceIf ''check''
       ''deno fmt --check && deno lint && deno check **/*.ts && deno check **/*.tsx''
       ''deno fmt --check && deno lint && deno check''
      (replaceIf ''update'' ''deno run -A -r https://fresh.deno.dev/update .''
         ''deno run -A -r jsr:@fresh/update .''
        (deleteIf ''cli''
           [''echo "import '' @ [CHR 0x27, CHR 0x5C] @ ''$fresh/src/dev/cli.ts'" | deno run --unstable -A -'',
            ''echo "import '$fresh/src/dev/cli.ts'" | deno run --unstable -A -'']
          (deleteIf ''manifest'' [''deno task cli manifest $(pwd)''] t)))\<close>

fun editTasksValue :: "json \<Rightarrow> manifestError + json" where
  "editTasksValue JNull = Inl TypeError"
| "editTasksValue (JObject t) = Inr (JObject (editTaskMap t))"
| "editTasksValue v = Inr v"

text \<open>
  The callback that \<^verbatim>\<open>updateProject\<close> passes to \<^verbatim>\<open>updateDenoJson\<close> (lines 130 to 175), on
  the parsed document.  On an array as document the assignments set properties that are
  not serialized; on \<^verbatim>\<open>null\<close> and on a primitive value the first of them throws.
\<close>

definition editTasks :: "(string \<times> json) list \<Rightarrow> manifestError + (string \<times> json) list" where
  "editTasks config =
     (case map_of config ''tasks'' of
        None \<Rightarrow> Inr config
      | Some tasks \<Rightarrow>
          (case editTasksValue tasks of
             Inl e \<Rightarrow> Inl e
           | Inr tasks' \<Rightarrow> Inr (AList.update ''tasks'' tasks' config)))"

definition editConfigObject :: "(string \<times> json) list \<Rightarrow> manifestError + (string \<times> json) list" where
  "editConfigObject config =
     (case editImportsValue (map_of config ''imports'') of
        Inl e \<Rightarrow> Inl e
      | Inr imports' \<Rightarrow>
          editTasks (AList.delete ''lock'' (AList.update ''imports'' imports' config)))"

fun editConfig :: "json \<Rightarrow> manifestError + json" where
  "editConfig (JObject config) =
     (case editConfigObject config of Inl e \<Rightarrow> Inl e | Inr config' \<Rightarrow> Inr (JObject config'))"
| "editConfig (JArray xs) = Inr (JArray xs)"
| "editConfig v = Inl TypeError"

text \<open>The two manifest files of a project directory, each with its text if it exists.\<close>

record manifestFiles =
  denoJson :: "string option"
  denoJsonc :: "string option"

datatype manifestPath = DenoJsonPath | DenoJsoncPath

record manifestResult =
  updated :: bool
  path :: "manifestPath option"

text \<open>Lines 43 to 67: \<^verbatim>\<open>deno.json\<close> is read, and \<^verbatim>\<open>deno.jsonc\<close> when it is not found.\<close>

definition readManifest :: "manifestFiles \<Rightarrow> (manifestPath \<times> string) option" where
  "readManifest fs =
     (case denoJson fs of
        Some content \<Rightarrow> Some (DenoJsonPath, content)
      | None \<Rightarrow> (case denoJsonc fs of
                   Some content \<Rightarrow> Some (DenoJsoncPath, content)
                 | None \<Rightarrow> None))"

fun writeManifest :: "manifestPath \<Rightarrow> string \<Rightarrow> manifestFiles \<Rightarrow> manifestFiles" where
  "writeManifest DenoJsonPath content fs = fs\<lparr>denoJson := Some content\<rparr>"
| "writeManifest DenoJsoncPath content fs = fs\<lparr>denoJsonc := Some content\<rparr>"

text \<open>
  \<^verbatim>\<open>updateDenoJson(dir, fn)\<close> with the callback above.  \<^verbatim>\<open>JSONC.parse\<close> and
  \<^verbatim>\<open>JSON.stringify(json, null, 2)\<close> belong to the libraries and are parameters.  The loop of
  lines 79 to 83 removes nothing, since no key of a parsed and edited document holds
  \<^verbatim>\<open>undefined\<close>.  The result is the thrown error, or the returned record, the serialized
  \<^verbatim>\<open>newContent\<close> when a manifest was read, and the files afterwards.
\<close>

definition updateDenoJson ::
  "(string \<Rightarrow> json option) \<Rightarrow> (json \<Rightarrow> string) \<Rightarrow> manifestFiles \<Rightarrow>
     manifestError + (manifestResult \<times> string option \<times> manifestFiles)" where
  "updateDenoJson parse stringify fs =
     (case readManifest fs of
        None \<Rightarrow> Inr (\<lparr>updated = False, path = None\<rparr>, None, fs)
      | Some (jsonPath, content) \<Rightarrow>
          (case parse content of
             None \<Rightarrow> Inl SyntaxError
           | Some json \<Rightarrow>
               (case editConfig json of
                  Inl e \<Rightarrow> Inl e
                | Inr json' \<Rightarrow>
                    (let newContent = stringify json' in
                     if newContent \<noteq> trim content
                     then Inr (\<lparr>updated = True, path = Some jsonPath\<rparr>, Some newContent,
                               writeManifest jsonPath (newContent @ ''\<newline>'') fs)
                     else Inr (\<lparr>updated = False, path = Some jsonPath\<rparr>, Some newContent, fs)))))"

text \<open>The document that a run serializes: the parsed manifest after the edits.\<close>

definition editedManifest :: "(string \<Rightarrow> json option) \<Rightarrow> manifestFiles \<Rightarrow> json option" where
  "editedManifest parse fs =
     (case readManifest fs of
        None \<Rightarrow> None
      | Some (jsonPath, content) \<Rightarrow>
          (case parse content of
             None \<Rightarrow> None
           | Some json \<Rightarrow> (case editConfig json of Inl e \<Rightarrow> None | Inr json' \<Rightarrow> Some json')))"

section \<open>Notions used in the statements and proofs\<close>

text \<open>The module specifiers of the import declarations of a file, in order.\<close>

definition importSpecifiers :: "topLevel list \<Rightarrow> string list" where
  "importSpecifiers items = map moduleSpecifier (getImportDeclarations items)"

text \<open>The module specifiers of the file that \<^verbatim>\<open>updateFile\<close> returns.\<close>

definition resultSpecifiers :: "sourceFile \<Rightarrow> string list option" where
  "resultSpecifiers sf =
     (case updateFile sf of
        Inl e \<Rightarrow> None
      | Inr (m, sf') \<Rightarrow> Some (importSpecifiers (statements sf')))"

text \<open>The specifier that the import rewriter gives to a declaration with specifier \<open>s\<close>.\<close>

definition migratedSpecifier :: "string \<Rightarrow> string" where
  "migratedSpecifier s =
     (if s = ''$fresh/server.ts'' then ''fresh''
      else if s = ''$fresh/runtime.ts'' then ''fresh/runtime'' else s)"


text \<open>
  The seven directives of lines 285 to 292 without their line feed, the lines of a text
  that end in a line feed, and the texts in which a line that ends with a directive is
  that directive and nothing else.
\<close>

definition directiveLines :: "string list" where
  \<open>directiveLines =
     [''/** @jsx h */'', ''/** @jsxFrag Fragment */'',
      ''/// <reference no-default-lib="true" />'', ''/// <reference lib="dom" />'',
      ''/// <reference lib="dom.iterable" />'', ''/// <reference lib="dom.asynciterable" />'',
      ''/// <reference lib="deno.ns" />'']\<close>

definition terminatedLines :: "string \<Rightarrow> string list" where
  "terminatedLines t = butlast (splitOn (CHR ''\<newline>'') t)"

definition directivesOnOwnLines :: "string \<Rightarrow> bool" where
  "directivesOnOwnLines t =
     list_all (\<lambda>l. list_all (\<lambda>d. \<not> endsWith l d \<or> l = d) directiveLines) (terminatedLines t)"


text \<open>The pieces of text between the declarations of a file, in order.\<close>

fun triviaTexts :: "topLevel list \<Rightarrow> string list" where
  "triviaTexts [] = []"
| "triviaTexts (Trivia t # items) = t # triviaTexts items"
| "triviaTexts (item # items) = triviaTexts items"

text \<open>
  A chain of accesses in which the member-access rewriter finds nothing to rewrite: no
  access of \<^verbatim>\<open>remoteAddr\<close> on a receiver with the text \<^verbatim>\<open>ctx\<close> and no access of
  \<^verbatim>\<open>renderNotFound\<close>.
\<close>

fun hasNoTarget :: "expr \<Rightarrow> bool" where
  "hasNoTarget (PropertyAccessExpression e name) =
     (\<not> (getText e = ''ctx'' \<and> name = ''remoteAddr'') \<and> name \<noteq> ''renderNotFound'' \<and> hasNoTarget e)"
| "hasNoTarget e = True"

text \<open>
  A chain of accesses in which every access of \<^verbatim>\<open>renderNotFound\<close> that the member-access
  rewriter reaches has a receiver with nothing to rewrite.  The rewriter renames such an
  access without looking into its receiver, and looks into the receiver of the renamed
  access when it meets it again.
\<close>

fun stableAccess :: "expr \<Rightarrow> bool" where
  "stableAccess (PropertyAccessExpression e name) =
     (if getText e = ''ctx'' \<and> name = ''remoteAddr'' then True
      else if name = ''renderNotFound'' then hasNoTarget e
      else stableAccess e)"
| "stableAccess e = True"

text \<open>The same for the accesses that the statement walker reaches in an expression.\<close>

fun stableExpr :: "expr \<Rightarrow> bool" where
  "stableExpr (PropertyAccessExpression e name) = stableAccess (PropertyAccessExpression e name)"
| "stableExpr (CallExpression f args) = stableExpr f"
| "stableExpr (AwaitExpression e) = stableExpr e"
| "stableExpr (BinaryExpression l op r) = (stableExpr l \<and> stableExpr r)"
| "stableExpr e = True"

fun stableStmt :: "stmt \<Rightarrow> bool" where
  "stableStmt (ReturnStatement eo) = (case eo of None \<Rightarrow> True | Some e \<Rightarrow> stableExpr e)"
| "stableStmt (VariableStatement k decls) =
     list_all (\<lambda>(name, init). case init of None \<Rightarrow> True | Some e \<Rightarrow> stableExpr e) decls"
| "stableStmt (ExpressionStatement e) = stableExpr e"
| "stableStmt (NestedStatement k ss) = list_all stableStmt ss"
| "stableStmt (FunctionsIn s ss) = (stableStmt s \<and> list_all stableStmt ss)"

fun stableBody :: "funcBody \<Rightarrow> bool" where
  "stableBody (Block ss) = list_all stableStmt ss"
| "stableBody (ConciseBody e fs) = list_all stableStmt fs"

text \<open>
  A parameter list of at most two parameters whose second parameter, if there is one, is
  not named \<^verbatim>\<open>req\<close> or \<^verbatim>\<open>_req\<close>.
\<close>

fun stableParameters :: "parameter list \<Rightarrow> bool" where
  "stableParameters [] = True"
| "stableParameters [p] = True"
| "stableParameters [p, q] =
     (getName (nameNode q) \<noteq> ''req'' \<and> getName (nameNode q) \<noteq> ''_req'')"
| "stableParameters (p # q # r # ps) = False"

definition stableFunction :: "func \<Rightarrow> bool" where
  "stableFunction f = (stableParameters (parameters f) \<and> stableBody (body f))"


text \<open>
  The functions that the handler rewriting hands to \<^verbatim>\<open>rewriteFunction\<close>: of a property, of
  the export named \<^verbatim>\<open>handler\<close>, of the default export, of one export, of the exports of a
  list of items, and of a file.
\<close>

fun propertyFunctions :: "objectProperty \<Rightarrow> func list" where
  "propertyFunctions (MethodProperty name f) = (if name \<in> set httpMethods then [f] else [])"
| "propertyFunctions (PropertyAssignment name (PropertyFunction f)) = [f]"
| "propertyFunctions p = []"

fun handlerExportFunctions :: "exportedDecl \<Rightarrow> func list" where
  "handlerExportFunctions (VariableDeclaration (ObjectLiteralExpression props)) =
     concat (map propertyFunctions props)"
| "handlerExportFunctions (FunctionDecl f) = [f]"
| "handlerExportFunctions d = []"

fun defaultExportFunctions :: "exportedDecl \<Rightarrow> func list" where
  "defaultExportFunctions (CallDecl (Identifier t) (FunctionArgument f # args)) =
     (if t \<in> set wrapperNames then [f] else [])"
| "defaultExportFunctions (FunctionDecl f) = [f]"
| "defaultExportFunctions d = []"

definition exportFunctions :: "string \<Rightarrow> exportedDecl \<Rightarrow> func list" where
  "exportFunctions name d =
     (if name = ''handler'' then handlerExportFunctions d
      else if name = ''default'' then defaultExportFunctions d
      else [])"

fun exportsFunctions :: "string list \<Rightarrow> topLevel list \<Rightarrow> func list" where
  "exportsFunctions seen [] = []"
| "exportsFunctions seen (ExportedDeclaration name d # items) =
     (if name \<in> set seen then exportsFunctions seen items
      else exportFunctions name d @ exportsFunctions (name # seen) items)"
| "exportsFunctions seen (item # items) = exportsFunctions seen items"

definition rewrittenFunctions :: "sourceFile \<Rightarrow> func list" where
  "rewrittenFunctions sf =
     (if isRouteFile (filePath sf) then exportsFunctions [] (statements sf) else [])"

section \<open>Example inputs\<close>

text \<open>
  A file with the two declarations \<^verbatim>\<open>import { PageProps } from "$fresh/server.ts"\<close> and
  \<^verbatim>\<open>import { FreshContext } from "$fresh/server.ts"\<close>; a file with the single declaration
  \<^verbatim>\<open>import { Handlers, PageProps } from "$fresh/server.ts"\<close>; and the file that holds the
  given import declarations and nothing else.
\<close>

definition twoServerImports :: sourceFile where
  "twoServerImports = \<lparr>filePath = ''/app/main.ts'', statements =
     [ImportDeclaration \<lparr>moduleSpecifier = ''$fresh/server.ts'', defaultImport = None,
        namespaceImport = None, namedImports = [namedImport ''PageProps'']\<rparr>,
      ImportDeclaration \<lparr>moduleSpecifier = ''$fresh/server.ts'', defaultImport = None,
        namespaceImport = None, namedImports = [namedImport ''FreshContext'']\<rparr>]\<rparr>"

definition oneServerImport :: sourceFile where
  "oneServerImport = \<lparr>filePath = ''/app/main.ts'', statements =
     [ImportDeclaration \<lparr>moduleSpecifier = ''$fresh/server.ts'', defaultImport = None,
        namespaceImport = None,
        namedImports = [namedImport ''Handlers'', namedImport ''PageProps'']\<rparr>]\<rparr>"

definition importsOnly :: "importDeclaration list \<Rightarrow> sourceFile" where
  "importsOnly ds = \<lparr>filePath = ''/app/main.ts'', statements = map ImportDeclaration ds\<rparr>"

text \<open>
  A route file with \<^verbatim>\<open>import * as fresh from "$fresh/server.ts"\<close> and
  \<^verbatim>\<open>export function handler(req) {}\<close>.
\<close>

definition namespaceRoute :: sourceFile where
  "namespaceRoute = \<lparr>filePath = ''/app/routes/index.ts'', statements =
     [ImportDeclaration \<lparr>moduleSpecifier = ''$fresh/server.ts'', defaultImport = None,
        namespaceImport = Some ''fresh'', namedImports = []\<rparr>,
      ExportedDeclaration ''handler''
        (FunctionDecl \<lparr>kind = FunctionDeclaration, parameters = [identParam ''req'' None],
           body = Block []\<rparr>)]\<rparr>"

text \<open>
  A file outside the routes that holds one piece of text; a JSX pragma whose line ends with
  a carriage return and a line feed; a route file whose exported \<^verbatim>\<open>handler\<close> function has
  the given parameters and statements; and a route file with a pragma, legacy imports and
  a handler object, before and after its migration.
\<close>

definition pragmaFile :: "string \<Rightarrow> sourceFile" where
  "pragmaFile t = \<lparr>filePath = ''/app/main.tsx'', statements = [Trivia t]\<rparr>"

definition carriagePragma :: string where
  "carriagePragma = ''/** @jsx h */'' @ [CHR 0x0D, CHR ''\<newline>'']"

definition handlerRoute :: "parameter list \<Rightarrow> stmt list \<Rightarrow> sourceFile" where
  "handlerRoute ps ss = \<lparr>filePath = ''/app/routes/index.ts'', statements =
     [ExportedDeclaration ''handler''
        (FunctionDecl \<lparr>kind = FunctionDeclaration, parameters = ps, body = Block ss\<rparr>)]\<rparr>"

text \<open>
  A formatter that does one thing of what \<^verbatim>\<open>deno fmt\<close> does: it writes a line feed for
  every carriage return followed by a line feed.
\<close>

fun lineFeeds :: "string \<Rightarrow> string" where
  "lineFeeds [] = []"
| "lineFeeds [c] = [c]"
| "lineFeeds (c # d # cs) =
     (if c = CHR 0x0D \<and> d = CHR ''\<newline>'' then d # lineFeeds cs else c # lineFeeds (d # cs))"

fun formatItem :: "topLevel \<Rightarrow> topLevel" where
  "formatItem (Trivia t) = Trivia (lineFeeds t)"
| "formatItem item = item"

definition formatLineEnds :: "topLevel list \<Rightarrow> topLevel list" where
  "formatLineEnds items = map formatItem items"



text \<open>
  A serializer in the layout of \<^verbatim>\<open>JSON.stringify(json, null, 2)\<close> for documents whose strings
  need no escapes, a manifest before and after the update, and a parser that reads the two
  texts involved.
\<close>

definition quoted :: "string \<Rightarrow> string" where
  "quoted s = [CHR 0x22] @ s @ [CHR 0x22]"

fun joinLines :: "string list \<Rightarrow> string" where
  "joinLines [] = []"
| "joinLines [x] = x"
| "joinLines (x # y # ys) = x @ '',\<newline>'' @ joinLines (y # ys)"

fun stringifyAt :: "string \<Rightarrow> json \<Rightarrow> string" where
  "stringifyAt ind JNull = ''null''"
| "stringifyAt ind (JBool b) = (if b then ''true'' else ''false'')"
| "stringifyAt ind (JNumber n) = n"
| "stringifyAt ind (JString s) = quoted s"
| "stringifyAt ind (JArray xs) =
     (if xs = [] then ''[]''
      else ''[\<newline>'' @ joinLines (map (\<lambda>x. ind @ ''  '' @ stringifyAt (ind @ ''  '') x) xs) @
           ''\<newline>'' @ ind @ '']'')"
| "stringifyAt ind (JObject kvs) =
     (if kvs = [] then ''{}''
      else ''{\<newline>'' @
           joinLines (map (\<lambda>(k, v). ind @ ''  '' @ quoted k @ '': '' @ stringifyAt (ind @ ''  '') v) kvs) @
           ''\<newline>'' @ ind @ ''}'')"

definition jsonStringify :: "json \<Rightarrow> string" where
  "jsonStringify j = stringifyAt [] j"

definition manifestBefore :: json where
  "manifestBefore = JObject
     [(''lock'', JBool False),
      (''tasks'', JObject [(''update'', JString ''deno run -A -r https://fresh.deno.dev/update .'')]),
      (''imports'', JObject [(''$fresh/'', JString ''https://deno.land/x/fresh@1.6.8/'')])]"

definition manifestBeforeText :: string where
  \<open>manifestBeforeText =
     ''{"lock": false, "tasks": {"update": "deno run -A -r https://fresh.deno.dev/update ."}, '' @
     ''"imports": {"$fresh/": "https://deno.land/x/fresh@1.6.8/"}}\<newline>''\<close>

definition manifestAfter :: json where
  "manifestAfter = JObject
     [(''tasks'', JObject [(''update'', JString ''deno run -A -r jsr:@fresh/update .'')]),
      (''imports'', JObject
         [(''fresh'', JString ''jsr:@fresh/core@^2.0.0-alpha.34''),
          (''preact'', JString ''npm:preact@^10.26.6''),
          (''@preact/signals'', JString ''npm:@preact/signals@^2.0.4'')])]"

definition manifestParse :: "string \<Rightarrow> json option" where
  "manifestParse t =
     (if t = manifestBeforeText then Some manifestBefore
      else if t = jsonStringify manifestAfter @ ''\<newline>'' then Some manifestAfter
      else None)"

section \<open>Properties of the member-access rewriter\<close>

lemma getText_access_not_ctx: "getText (PropertyAccessExpression e n) \<noteq> ''ctx''"
proof
  assume "getText (PropertyAccessExpression e n) = ''ctx''"
  then have "CHR ''.'' \<in> set ''ctx''"
    by (metis getText.simps(3) in_set_conv_decomp append_Cons append_Nil)
  then show False by simp
qed

lemma accessChain_snoc: "accessChain e (ns @ [n]) = PropertyAccessExpression (accessChain e ns) n"
  by (simp add: accessChain_def)

lemma rewrite_chain_renderNotFound:
  "''renderNotFound'' \<notin> set ns \<Longrightarrow>
   snd (rewriteCtxMemberName par (accessChain (PropertyAccessExpression e ''renderNotFound'') ns)) =
     accessChain (PropertyAccessExpression e ''throw'') ns"
proof (induction ns arbitrary: par rule: rev_induct)
  case Nil
  then show ?case by (simp add: accessChain_def)
next
  case (snoc n ns)
  let ?inner = "accessChain (PropertyAccessExpression e ''renderNotFound'') ns"
  obtain r m where inner: "?inner = PropertyAccessExpression r m"
    by (cases ns rule: rev_cases) (simp_all add: accessChain_def)
  have n: "n \<noteq> ''renderNotFound''" and ns: "''renderNotFound'' \<notin> set ns"
    using snoc.prems by auto
  have notctx: "getText ?inner \<noteq> ''ctx''"
    unfolding inner by (rule getText_access_not_ctx)
  have "snd (rewriteCtxMemberName par (PropertyAccessExpression ?inner n)) =
          PropertyAccessExpression (snd (rewriteCtxMemberName OtherParent ?inner)) n"
    using n notctx by (simp add: inner del: getText.simps)
  then show ?case
    using snoc.IH [OF ns] by (simp add: accessChain_snoc)
qed

text \<open>
  C3.  The access \<^verbatim>\<open>ctx.remoteAddr\<close> is rewritten by replacing its receiver \<^verbatim>\<open>ctx\<close> with
  the text \<^verbatim>\<open>ctx.info.remoteAddr\<close> while the accessed name stays in place, so the
  resulting expression reads \<^verbatim>\<open>ctx.info.remoteAddr.remoteAddr\<close> and not
  \<^verbatim>\<open>ctx.info.remoteAddr\<close>.
\<close>

theorem C3_ctx_remoteAddr_result:
  "snd (rewriteCtxMemberName par (PropertyAccessExpression (Identifier ''ctx'') ''remoteAddr'')) =
     PropertyAccessExpression ctx_info_remoteAddr ''remoteAddr''
   \<and> getText (PropertyAccessExpression ctx_info_remoteAddr ''remoteAddr'') =
       ''ctx.info.remoteAddr.remoteAddr''
   \<and> getText ctx_info_remoteAddr = ''ctx.info.remoteAddr''"
  by (simp add: ctx_info_remoteAddr_def)

text \<open>
  C7.  A property access whose accessed name is \<^verbatim>\<open>renderNotFound\<close> gets that name
  replaced by \<^verbatim>\<open>throw\<close>; when the access is the callee of a call, the literal \<^verbatim>\<open>404\<close> is
  appended to the arguments of that call; and an access to \<^verbatim>\<open>renderNotFound\<close> below
  further accesses of other names is reached through them and renamed.
\<close>

theorem C7_renderNotFound_to_throw:
  "snd (rewriteCtxMemberName par (PropertyAccessExpression e ''renderNotFound'')) =
     PropertyAccessExpression e ''throw''
   \<and> plug (fst (rewriteCtxMemberName (CalleeOf args)
              (PropertyAccessExpression e ''renderNotFound'')))
          (snd (rewriteCtxMemberName (CalleeOf args)
              (PropertyAccessExpression e ''renderNotFound''))) =
       CallExpression (PropertyAccessExpression e ''throw'') (args @ [NumericLiteral ''404''])
   \<and> (''renderNotFound'' \<notin> set ns \<longrightarrow>
        snd (rewriteCtxMemberName par
              (accessChain (PropertyAccessExpression e ''renderNotFound'') ns)) =
          accessChain (PropertyAccessExpression e ''throw'') ns)"
  using rewrite_chain_renderNotFound [of ns par e] by simp

theorem C7_renderNotFound_witness:
  "getText (plug (fst (rewriteCtxMemberName (CalleeOf [])
        (PropertyAccessExpression (PropertyAccessExpression (Identifier ''ctx'') ''state'')
           ''renderNotFound'')))
      (snd (rewriteCtxMemberName (CalleeOf [])
        (PropertyAccessExpression (PropertyAccessExpression (Identifier ''ctx'') ''state'')
           ''renderNotFound'')))) = ''ctx.state.throw(404)''
   \<and> ''renderNotFound'' \<notin> set [''x'', ''y'']
   \<and> getText (snd (rewriteCtxMemberName OtherParent
        (accessChain (PropertyAccessExpression (Identifier ''ctx'') ''renderNotFound'')
           [''x'', ''y'']))) = ''ctx.throw.x.y''"
  using C7_renderNotFound_to_throw [of OtherParent "Identifier ''ctx''" "[]" "[''x'', ''y'']"]
    C7_renderNotFound_to_throw [of OtherParent
      "PropertyAccessExpression (Identifier ''ctx'') ''state''" "[]" "[]"]
  by (simp add: accessChain_def)

section \<open>Properties of the parameter normalizer\<close>

text \<open>The pattern \<^verbatim>\<open>{ remoteAddr }\<close> and the same pattern without the spaces, step by step.\<close>

lemma pattern_remoteAddr:
  "getElements ''{ remoteAddr }'' = [''remoteAddr'']"
  "elementName ''remoteAddr'' = ''remoteAddr''"
  "renameRemoteAddr ''{ remoteAddr }'' = ''{ info }''"
  "spliceReq ''{ info }'' = ''{ info, req }''"
  by (simp_all add: getElements_def patternPieces_def trim_def isSpace_def elementName_def
      renameRemoteAddr_def renamePiece_def spliceReq_def)

lemma pattern_tight:
  "getElements ''{remoteAddr}'' = [''remoteAddr'']"
  "elementName ''remoteAddr'' = ''remoteAddr''"
  "renameRemoteAddr ''{remoteAddr}'' = ''{info}''"
  "spliceReq ''{info}'' = ''{inf, req }''"
  by (simp_all add: getElements_def patternPieces_def trim_def isSpace_def elementName_def
      renameRemoteAddr_def renamePiece_def spliceReq_def)

text \<open>
  C4 (as amended).  For a function whose only parameter is \<^verbatim>\<open>req\<close> without a type
  annotation and whose body is a block, the normalizer renames the parameter to \<^verbatim>\<open>ctx\<close>
  and inserts \<^verbatim>\<open>const req = ctx.req\<close> as the first statement of the body.  It adds the
  type annotation \<^verbatim>\<open>FreshContext\<close> and registers that name in the core set exactly when
  the caller does not pass \<^verbatim>\<open>hasInferredTypes\<close>, which is the case for function
  declarations and wrapper arguments; for the properties of an exported handler object the
  flag is passed, and the parameter stays without annotation and nothing is registered.
\<close>

theorem C4_single_req_parameter:
  "parameters m = [identParam ''req'' None] \<Longrightarrow> body m = Block ss \<Longrightarrow>
   maybePrependReqVar m newImports hasInferredTypes =
     (m\<lparr>parameters :=
          [identParam ''ctx'' (if hasInferredTypes then None else Some ''FreshContext'')],
        body := Block (VariableStatement Const [(''req'', Some ctx_req)] # ss)\<rparr>,
      if hasInferredTypes then newImports
      else newImports\<lparr>core := setAdd ''FreshContext'' (core newImports)\<rparr>)"
  by (simp add: maybePrependReqVar_def editParameters_def startsWith_def Let_def identParam_def)

theorem C4_single_req_parameter_witness:
  "maybePrependReqVar
     \<lparr>kind = FunctionDeclaration, parameters = [identParam ''req'' None],
      body = Block [ReturnStatement None]\<rparr> emptyImports False =
   (\<lparr>kind = FunctionDeclaration, parameters = [identParam ''ctx'' (Some ''FreshContext'')],
     body = Block [VariableStatement Const [(''req'', Some ctx_req)], ReturnStatement None]\<rparr>,
    \<lparr>core = [''FreshContext''], runtime = [], compat = []\<rparr>)"
  using C4_single_req_parameter [of
      "\<lparr>kind = FunctionDeclaration, parameters = [identParam ''req'' None],
        body = Block [ReturnStatement None]\<rparr>" "[ReturnStatement None]" emptyImports False]
  by (simp add: emptyImports_def setAdd_def)

text \<open>
  The method \<^verbatim>\<open>GET(req) {}\<close> of an exported handler object comes out as
  \<^verbatim>\<open>GET(ctx) { const req = ctx.req; }\<close>: no type annotation, and the core set stays empty.
\<close>

theorem C4_handler_object_counterexample:
  "rewriteHandlerExport
     (VariableDeclaration (ObjectLiteralExpression
        [MethodProperty ''GET''
           \<lparr>kind = MethodDeclaration, parameters = [identParam ''req'' None], body = Block []\<rparr>]))
     emptyImports =
   (VariableDeclaration (ObjectLiteralExpression
        [MethodProperty ''GET''
           \<lparr>kind = MethodDeclaration, parameters = [identParam ''ctx'' None],
            body = Block [VariableStatement Const [(''req'', Some ctx_req)]]\<rparr>]),
    emptyImports)"
  by (simp add: rewriteFunction_def httpMethods_def maybePrependReqVar_def editParameters_def
      startsWith_def Let_def identParam_def rewriteCtxMethods_def)

text \<open>
  C5 (as amended).  For a function with the parameters \<^verbatim>\<open>(req, { remoteAddr })\<close>, the
  pattern written in this layout with a space before its closing brace, and a block body,
  the normalizer removes the first parameter, rewrites the pattern of the surviving
  parameter to \<^verbatim>\<open>{ info, req }\<close> and inserts \<^verbatim>\<open>const remoteAddr = info.remoteAddr\<close> as the
  first statement of the body.  That is the only statement it inserts: \<^verbatim>\<open>req\<close> is bound by
  the pattern, and no \<^verbatim>\<open>const req = ctx.req\<close> is added.  A \<^verbatim>\<open>RouteContext\<close> annotation of the
  second parameter becomes \<^verbatim>\<open>FreshContext\<close>, registered in the core set.
\<close>

theorem C5_req_and_remoteAddr_pattern:
  "parameters m = [identParam ''req'' t0,
      \<lparr>nameNode = ObjectBindingPattern ''{ remoteAddr }'', typeNode = t\<rparr>] \<Longrightarrow>
   body m = Block ss \<Longrightarrow>
   maybePrependReqVar m newImports hasInferredTypes =
     (m\<lparr>parameters :=
          [\<lparr>nameNode = ObjectBindingPattern ''{ info, req }'',
            typeNode = (if t = Some ''RouteContext'' then Some ''FreshContext'' else t)\<rparr>],
        body := Block (VariableStatement Const [(''remoteAddr'', Some info_remoteAddr)] # ss)\<rparr>,
      if t = Some ''RouteContext''
      then newImports\<lparr>core := setAdd ''FreshContext'' (core newImports)\<rparr> else newImports)"
  by (simp add: maybePrependReqVar_def editParameters_def startsWith_def Let_def identParam_def
      pattern_remoteAddr)

theorem C5_req_and_remoteAddr_pattern_witness:
  "maybePrependReqVar
     \<lparr>kind = ArrowFunction,
      parameters = [identParam ''req'' None,
        \<lparr>nameNode = ObjectBindingPattern ''{ remoteAddr }'', typeNode = None\<rparr>],
      body = Block [ReturnStatement None]\<rparr> emptyImports True =
   (\<lparr>kind = ArrowFunction,
     parameters = [\<lparr>nameNode = ObjectBindingPattern ''{ info, req }'', typeNode = None\<rparr>],
     body = Block [VariableStatement Const [(''remoteAddr'', Some info_remoteAddr)],
                   ReturnStatement None]\<rparr>,
    emptyImports)"
  using C5_req_and_remoteAddr_pattern [of
      "\<lparr>kind = ArrowFunction,
        parameters = [identParam ''req'' None,
          \<lparr>nameNode = ObjectBindingPattern ''{ remoteAddr }'', typeNode = None\<rparr>],
        body = Block [ReturnStatement None]\<rparr>" None None "[ReturnStatement None]" emptyImports True]
  by simp

text \<open>
  On \<^verbatim>\<open>(req, { remoteAddr }) => {}\<close> the body holds the declaration of \<^verbatim>\<open>remoteAddr\<close> and
  nothing else afterwards; the declaration \<^verbatim>\<open>const req = ctx.req\<close> is not among its
  statements.
\<close>

theorem C5_no_const_req_counterexample:
  "body (fst (maybePrependReqVar
      \<lparr>kind = ArrowFunction,
       parameters = [identParam ''req'' None,
         \<lparr>nameNode = ObjectBindingPattern ''{ remoteAddr }'', typeNode = None\<rparr>],
       body = Block []\<rparr> emptyImports True)) =
     Block [VariableStatement Const [(''remoteAddr'', Some info_remoteAddr)]]
   \<and> VariableStatement Const [(''req'', Some ctx_req)] \<noteq>
       VariableStatement Const [(''remoteAddr'', Some info_remoteAddr)]"
  by (simp add: maybePrependReqVar_def editParameters_def startsWith_def Let_def identParam_def
      pattern_remoteAddr)

text \<open>
  The splice cuts two characters whatever they are.  Written without the spaces, as
  \<^verbatim>\<open>{remoteAddr}\<close>, the pattern is renamed to \<^verbatim>\<open>{info}\<close> and then comes out as
  \<^verbatim>\<open>{inf, req }\<close>, while the inserted declaration still reads \<^verbatim>\<open>info\<close>.
\<close>

lemma tight_pattern_is_cut:
  "maybePrependReqVar
     \<lparr>kind = ArrowFunction,
      parameters = [identParam ''req'' None,
        \<lparr>nameNode = ObjectBindingPattern ''{remoteAddr}'', typeNode = None\<rparr>],
      body = Block []\<rparr> emptyImports True =
   (\<lparr>kind = ArrowFunction,
     parameters = [\<lparr>nameNode = ObjectBindingPattern ''{inf, req }'', typeNode = None\<rparr>],
     body = Block [VariableStatement Const [(''remoteAddr'', Some info_remoteAddr)]]\<rparr>,
    emptyImports)"
  by (simp add: maybePrependReqVar_def editParameters_def startsWith_def Let_def identParam_def
      pattern_tight)

text \<open>
  C10.  A function whose only parameter is named \<^verbatim>\<open>_req\<close> loses that parameter and is
  otherwise unchanged: no declaration is inserted into its body, there is no parameter
  left to annotate, and the import state is as before.
\<close>

theorem C10_underscore_req_removed:
  "parameters m = [\<lparr>nameNode = BindingIdentifier ''_req'', typeNode = t\<rparr>] \<Longrightarrow>
   maybePrependReqVar m newImports hasInferredTypes = (m\<lparr>parameters := []\<rparr>, newImports)"
  by (simp add: maybePrependReqVar_def editParameters_def startsWith_def Let_def
      split: funcBody.splits)

theorem C10_underscore_req_removed_witness:
  "maybePrependReqVar
     \<lparr>kind = MethodDeclaration, parameters = [identParam ''_req'' None],
      body = Block [ReturnStatement None]\<rparr> emptyImports True =
   (\<lparr>kind = MethodDeclaration, parameters = [], body = Block [ReturnStatement None]\<rparr>,
    emptyImports)"
  using C10_underscore_req_removed [of
      "\<lparr>kind = MethodDeclaration, parameters = [identParam ''_req'' None],
        body = Block [ReturnStatement None]\<rparr>" None emptyImports True]
  by (simp add: identParam_def)

section \<open>Properties of the import rewriter\<close>

lemma getImportDeclarations_append:
  "getImportDeclarations (xs @ ys) = getImportDeclarations xs @ getImportDeclarations ys"
  by (induction xs rule: getImportDeclarations.induct) auto

lemma getImportDeclarations_strip:
  "getImportDeclarations (map stripItem items) = getImportDeclarations items"
  by (induction items rule: getImportDeclarations.induct) auto

lemma getImportDeclarations_rewriteExports:
  "getImportDeclarations (fst (rewriteExports seen items imports)) = getImportDeclarations items"
  by (induction seen items "imports" rule: rewriteExports.induct) auto

lemma getImportDeclarations_rewriteHandlers:
  "getImportDeclarations (fst (rewriteHandlers p items)) = getImportDeclarations items"
  by (simp add: rewriteHandlers_def getImportDeclarations_rewriteExports)

lemma addNamedImports_specifier:
  "addNamedImports ns d = Inr d' \<Longrightarrow> moduleSpecifier d' = moduleSpecifier d"
  by (induction ns arbitrary: d) (auto simp: addNamedImport_def split: if_splits sum.splits)

lemma rewriteImport_specifier:
  "rewriteImport d st = Inr (Some d', st') \<Longrightarrow> moduleSpecifier d' = migratedSpecifier (moduleSpecifier d)"
  by (auto simp: rewriteImport_def migratedSpecifier_def removeEmptyImport_def Let_def
      split: if_splits sum.splits dest!: addNamedImports_specifier)

lemma rewriteImport_flags:
  "rewriteImport d st = Inr (d', st') \<Longrightarrow>
   hasCoreImport st' = (hasCoreImport st \<or> moduleSpecifier d = ''$fresh/server.ts'') \<and>
   hasRuntimeImport st' = (hasRuntimeImport st \<or> moduleSpecifier d = ''$fresh/runtime.ts'')"
  by (auto simp: rewriteImport_def Let_def split: if_splits sum.splits)

lemma rewriteImports_flags:
  "rewriteImports items st = Inr (items', st') \<Longrightarrow>
   hasCoreImport st' = (hasCoreImport st \<or> ''$fresh/server.ts'' \<in> set (importSpecifiers items)) \<and>
   hasRuntimeImport st' = (hasRuntimeImport st \<or> ''$fresh/runtime.ts'' \<in> set (importSpecifiers items))"
proof (induction items st arbitrary: items' st' rule: rewriteImports.induct)
  case (1 st)
  then show ?case by (simp add: importSpecifiers_def)
next
  case (2 d items st)
  from "2.prems" obtain d1 st1 items1 where
    r: "rewriteImport d st = Inr (d1, st1)" and
    rs: "rewriteImports items st1 = Inr (items1, st')"
    by (auto split: sum.splits prod.splits)
  show ?case
    using "2.IH" [OF r refl rs] rewriteImport_flags [OF r]
    by (auto simp: importSpecifiers_def)
qed (auto simp: importSpecifiers_def split: sum.splits prod.splits)

lemma rewriteImports_specifiers:
  "rewriteImports items st = Inr (items', st') \<Longrightarrow>
   distinct (map migratedSpecifier (importSpecifiers items)) \<Longrightarrow>
   distinct (importSpecifiers items') \<and>
   set (importSpecifiers items') \<subseteq> migratedSpecifier ` set (importSpecifiers items)"
proof (induction items st arbitrary: items' st' rule: rewriteImports.induct)
  case (1 st)
  then show ?case by (simp add: importSpecifiers_def)
next
  case (2 d items st)
  from "2.prems"(1) obtain d1 st1 items1 where
    r: "rewriteImport d st = Inr (d1, st1)" and
    rs: "rewriteImports items st1 = Inr (items1, st')" and
    out: "items' = (case d1 of None \<Rightarrow> items1 | Some d2 \<Rightarrow> ImportDeclaration d2 # items1)"
    by (auto split: sum.splits prod.splits)
  have dist: "distinct (map migratedSpecifier (importSpecifiers items))"
    and notin: "migratedSpecifier (moduleSpecifier d) \<notin> migratedSpecifier ` set (importSpecifiers items)"
    using "2.prems"(2) by (auto simp: importSpecifiers_def)
  have ih: "distinct (importSpecifiers items1) \<and>
     set (importSpecifiers items1) \<subseteq> migratedSpecifier ` set (importSpecifiers items)"
    using "2.IH" [OF r refl rs dist] .
  show ?case
  proof (cases d1)
    case None
    with out ih show ?thesis by (auto simp: importSpecifiers_def)
  next
    case (Some d2)
    have "moduleSpecifier d2 = migratedSpecifier (moduleSpecifier d)"
      using r Some by (simp add: rewriteImport_specifier)
    with out ih notin Some show ?thesis by (auto simp: importSpecifiers_def)
  qed
qed (auto simp: importSpecifiers_def split: sum.splits prod.splits)

lemma importSpecifiers_add_perm:
  "\<exists>xs ys. importSpecifiers items = xs @ ys \<and>
     importSpecifiers (addImportDeclaration spec names items) = xs @ spec # ys"
proof (cases "getImportDeclarations items = []")
  case True
  then have "importSpecifiers items = [] @ [] \<and>
     importSpecifiers (addImportDeclaration spec names items) = [] @ spec # []"
    by (simp add: importSpecifiers_def addImportDeclaration_def newImportDeclaration_def)
  then show ?thesis by blast
next
  case False
  let ?i = "afterLastImport items"
  let ?xs = "map moduleSpecifier (getImportDeclarations (take ?i items))"
  let ?ys = "map moduleSpecifier (getImportDeclarations (drop ?i items))"
  have "getImportDeclarations items =
      getImportDeclarations (take ?i items) @ getImportDeclarations (drop ?i items)"
    by (metis append_take_drop_id getImportDeclarations_append)
  then have 1: "importSpecifiers items = ?xs @ ?ys"
    by (simp add: importSpecifiers_def)
  have 2: "importSpecifiers (addImportDeclaration spec names items) = ?xs @ spec # ?ys"
    using False
    by (simp add: importSpecifiers_def addImportDeclaration_def getImportDeclarations_append
        newImportDeclaration_def)
  from 1 2 show ?thesis by blast
qed

lemma importSpecifiers_add_set:
  "set (importSpecifiers (addImportDeclaration spec names items)) = insert spec (set (importSpecifiers items))"
  using importSpecifiers_add_perm [of items spec names] by auto

lemma importSpecifiers_add_distinct:
  "distinct (importSpecifiers (addImportDeclaration spec names items)) =
     (spec \<notin> set (importSpecifiers items) \<and> distinct (importSpecifiers items))"
  using importSpecifiers_add_perm [of items spec names] by auto

lemma migrated_fresh:
  "''fresh'' \<notin> S \<Longrightarrow> (''fresh'' \<in> migratedSpecifier ` S) = (''$fresh/server.ts'' \<in> S)"
  "''fresh/runtime'' \<notin> S \<Longrightarrow> (''fresh/runtime'' \<in> migratedSpecifier ` S) = (''$fresh/runtime.ts'' \<in> S)"
  "''fresh/compat'' \<notin> S \<Longrightarrow> ''fresh/compat'' \<notin> migratedSpecifier ` S"
  by (auto simp: migratedSpecifier_def image_iff split: if_splits)

lemma migrated_distinct:
  "distinct xs \<Longrightarrow> ''fresh'' \<notin> set xs \<Longrightarrow> ''fresh/runtime'' \<notin> set xs \<Longrightarrow>
   distinct (map migratedSpecifier xs)"
  by (rule iffD2 [OF distinct_map]) (auto simp: inj_on_def migratedSpecifier_def split: if_splits)

lemma rewriteImportStage_distinct:
  assumes stage: "rewriteImportStage imps items = Inr (items', st)"
    and dist: "distinct (importSpecifiers items)"
    and fresh: "''fresh'' \<notin> set (importSpecifiers items)"
    and rt: "''fresh/runtime'' \<notin> set (importSpecifiers items)"
    and cp: "''fresh/compat'' \<notin> set (importSpecifiers items)"
  shows "distinct (importSpecifiers items')"
proof -
  let ?S = "set (importSpecifiers items)"
  from stage obtain items1 where
    loop: "rewriteImports items (initialLoop imps) = Inr (items1, st)" and
    out: "items' = synthesizeImports st items1"
    by (auto simp: rewriteImportStage_def split: sum.splits prod.splits)
  have d1: "distinct (importSpecifiers items1)"
    and s1: "set (importSpecifiers items1) \<subseteq> migratedSpecifier ` ?S"
    using rewriteImports_specifiers [OF loop migrated_distinct [OF dist fresh rt]] by auto
  have hc: "hasCoreImport st = (''$fresh/server.ts'' \<in> ?S)"
    and hr: "hasRuntimeImport st = (''$fresh/runtime.ts'' \<in> ?S)"
    using rewriteImports_flags [OF loop] by (auto simp: initialLoop_def)
  define items2 where "items2 = (if \<not> hasCoreImport st \<and> core (newImportSets st) \<noteq> []
      then addImportDeclaration ''fresh'' (core (newImportSets st)) items1 else items1)"
  define items3 where "items3 = (if \<not> hasRuntimeImport st \<and> runtime (newImportSets st) \<noteq> []
      then addImportDeclaration ''fresh/runtime'' (core (newImportSets st)) items2 else items2)"
  have out3: "items' = (if compat (newImportSets st) \<noteq> []
      then addImportDeclaration ''fresh/compat'' (compat (newImportSets st)) items3 else items3)"
    by (simp add: out synthesizeImports_def items2_def items3_def Let_def)
  have f1: "\<not> hasCoreImport st \<Longrightarrow> ''fresh'' \<notin> set (importSpecifiers items1)"
    using s1 migrated_fresh(1) [OF fresh] hc by blast
  have r1: "\<not> hasRuntimeImport st \<Longrightarrow> ''fresh/runtime'' \<notin> set (importSpecifiers items1)"
    using s1 migrated_fresh(2) [OF rt] hr by blast
  have c1: "''fresh/compat'' \<notin> set (importSpecifiers items1)"
    using s1 migrated_fresh(3) [OF cp] by blast
  have d2: "distinct (importSpecifiers items2)"
    and s2: "set (importSpecifiers items2) \<subseteq> insert ''fresh'' (set (importSpecifiers items1))"
    using d1 f1 by (auto simp: items2_def importSpecifiers_add_distinct importSpecifiers_add_set)
  have d3: "distinct (importSpecifiers items3)"
    and s3: "set (importSpecifiers items3) \<subseteq>
      insert ''fresh/runtime'' (insert ''fresh'' (set (importSpecifiers items1)))"
    using d2 s2 r1 by (auto simp: items3_def importSpecifiers_add_distinct importSpecifiers_add_set)
  show ?thesis
    using d3 s3 c1 by (auto simp: out3 importSpecifiers_add_distinct)
qed

lemma isRouteFile_main: "isRouteFile ''/app/main.ts'' = False"
  by (simp add: isRouteFile_def startsWith_def)

text \<open>
  C2 (as amended).  If the import declarations of the input file have pairwise different
  module specifiers, none of which is \<^verbatim>\<open>fresh\<close>, \<^verbatim>\<open>fresh/runtime\<close> or \<^verbatim>\<open>fresh/compat\<close>, then
  after \<^verbatim>\<open>updateFile\<close> has completed no two import declarations of the file share a
  module specifier.
\<close>

theorem C2_import_specifiers_distinct:
  assumes "updateFile sf = Inr (m, sf')"
    and "distinct (importSpecifiers (statements sf))"
    and "''fresh'' \<notin> set (importSpecifiers (statements sf))"
    and "''fresh/runtime'' \<notin> set (importSpecifiers (statements sf))"
    and "''fresh/compat'' \<notin> set (importSpecifiers (statements sf))"
  shows "distinct (importSpecifiers (statements sf'))"
proof -
  let ?h = "rewriteHandlers (filePath sf) (map stripItem (statements sf))"
  have same: "importSpecifiers (fst ?h) = importSpecifiers (statements sf)"
    by (simp add: importSpecifiers_def getImportDeclarations_rewriteHandlers
        getImportDeclarations_strip)
  from assms(1) obtain st where
    stage: "rewriteImportStage (snd ?h) (fst ?h) = Inr (statements sf', st)"
    by (auto simp: updateFile_def Let_def split: sum.splits prod.splits)
  show ?thesis
    by (rule rewriteImportStage_distinct [OF stage]) (use assms(2-5) in \<open>simp_all add: same\<close>)
qed

theorem C2_import_specifiers_distinct_witness:
  "updateFile oneServerImport = Inr (True, \<lparr>filePath = ''/app/main.ts'', statements =
     [ImportDeclaration \<lparr>moduleSpecifier = ''fresh'', defaultImport = None,
        namespaceImport = None, namedImports = [namedImport ''PageProps'']\<rparr>,
      ImportDeclaration (newImportDeclaration ''fresh/compat'' [''Handlers''])]\<rparr>)
   \<and> importSpecifiers (statements oneServerImport) = [''$fresh/server.ts'']
   \<and> distinct (importSpecifiers
        [ImportDeclaration \<lparr>moduleSpecifier = ''fresh'', defaultImport = None,
           namespaceImport = None, namedImports = [namedImport ''PageProps'']\<rparr>,
         ImportDeclaration (newImportDeclaration ''fresh/compat'' [''Handlers''])])"
proof -
  let ?out = "\<lparr>filePath = ''/app/main.ts'', statements =
     [ImportDeclaration \<lparr>moduleSpecifier = ''fresh'', defaultImport = None,
        namespaceImport = None, namedImports = [namedImport ''PageProps'']\<rparr>,
      ImportDeclaration (newImportDeclaration ''fresh/compat'' [''Handlers''])]\<rparr>"
  have run: "updateFile oneServerImport = Inr (True, ?out)"
    by (simp add: oneServerImport_def updateFile_def rewriteHandlers_def isRouteFile_main
        rewriteImportStage_def initialLoop_def emptyImports_def rewriteImport_def
        Let_def namedImport_def compatNames_def removeEmptyImport_def synthesizeImports_def
        setDelete_def setAdd_def addImportDeclaration_def afterLastImport_def
        newImportDeclaration_def)
  have specs: "importSpecifiers (statements oneServerImport) = [''$fresh/server.ts'']"
    by (simp add: oneServerImport_def importSpecifiers_def)
  have "distinct (importSpecifiers (statements ?out))"
    by (rule C2_import_specifiers_distinct [OF run]) (simp_all add: specs)
  with run specs show ?thesis by simp
qed

text \<open>
  With two declarations importing from \<^verbatim>\<open>$fresh/server.ts\<close>, both are renamed and the
  file ends with two declarations for the module specifier \<^verbatim>\<open>fresh\<close>.  The same happens
  next to a declaration that imports from \<^verbatim>\<open>fresh\<close> already; a file that imports from
  \<^verbatim>\<open>fresh/compat\<close> gets a second declaration for it when a compatibility name is moved;
  and a declaration for \<^verbatim>\<open>fresh/runtime\<close> is joined by the renamed legacy one.
\<close>

theorem C2_two_legacy_imports_counterexample:
  "updateFile twoServerImports = Inr (True, \<lparr>filePath = ''/app/main.ts'', statements =
     [ImportDeclaration \<lparr>moduleSpecifier = ''fresh'', defaultImport = None,
        namespaceImport = None, namedImports = [namedImport ''PageProps'']\<rparr>,
      ImportDeclaration \<lparr>moduleSpecifier = ''fresh'', defaultImport = None,
        namespaceImport = None, namedImports = [namedImport ''FreshContext'']\<rparr>]\<rparr>)
   \<and> \<not> distinct (importSpecifiers
        [ImportDeclaration \<lparr>moduleSpecifier = ''fresh'', defaultImport = None,
           namespaceImport = None, namedImports = [namedImport ''PageProps'']\<rparr>,
         ImportDeclaration \<lparr>moduleSpecifier = ''fresh'', defaultImport = None,
           namespaceImport = None, namedImports = [namedImport ''FreshContext'']\<rparr>])
   \<and> resultSpecifiers (importsOnly
        [newImportDeclaration ''fresh'' [''App''],
         newImportDeclaration ''$fresh/server.ts'' [''PageProps'']]) = Some [''fresh'', ''fresh'']
   \<and> resultSpecifiers (importsOnly
        [newImportDeclaration ''fresh/compat'' [''Handlers''],
         newImportDeclaration ''$fresh/server.ts'' [''PageProps'', ''LayoutProps'']]) =
       Some [''fresh/compat'', ''fresh'', ''fresh/compat'']
   \<and> resultSpecifiers (importsOnly
        [newImportDeclaration ''fresh/runtime'' [''IS_BROWSER''],
         newImportDeclaration ''$fresh/runtime.ts'' [''Head'']]) =
       Some [''fresh/runtime'', ''fresh/runtime'']"
  by (simp add: twoServerImports_def updateFile_def rewriteHandlers_def isRouteFile_main
      rewriteImportStage_def initialLoop_def emptyImports_def rewriteImport_def
      Let_def namedImport_def compatNames_def removeEmptyImport_def synthesizeImports_def
      setDelete_def setAdd_def importSpecifiers_def resultSpecifiers_def importsOnly_def
      newImportDeclaration_def addImportDeclaration_def afterLastImport_def)

text \<open>
  The synthesis of lines 454 to 459 taken by itself: entered with the core set
  \<^verbatim>\<open>{FreshContext}\<close> and the runtime set \<^verbatim>\<open>{IS_BROWSER}\<close> on a file without import
  declarations, it gives the declaration for \<^verbatim>\<open>fresh/runtime\<close> the name of the core set.
\<close>

lemma runtime_import_from_core_set:
  "rewriteImportStage \<lparr>core = [''FreshContext''], runtime = [''IS_BROWSER''], compat = []\<rparr> [] =
   Inr ([ImportDeclaration (newImportDeclaration ''fresh'' [''FreshContext'']),
         ImportDeclaration (newImportDeclaration ''fresh/runtime'' [''FreshContext''])],
        \<lparr>hasCoreImport = False, hasRuntimeImport = False, modified = False,
         removedJsxImports = [],
         newImportSets = \<lparr>core = [''FreshContext''], runtime = [''IS_BROWSER''], compat = []\<rparr>\<rparr>)"
  by (simp add: rewriteImportStage_def initialLoop_def synthesizeImports_def Let_def
      addImportDeclaration_def afterLastImport_def)

text \<open>
  No statement of \<^verbatim>\<open>updateFile\<close> adds a name to the runtime set: the handler rewriting
  registers names in the core set only, and the loop over the import declarations adds to
  the compat set and deletes from the other two.  So the runtime set is empty when
  \<^verbatim>\<open>updateFile\<close> reaches line 454, whatever the file.
\<close>

lemma runtime_editParameters: "runtime (snd (editParameters h ps imp)) = runtime imp"
  by (simp add: editParameters_def Let_def)

lemma runtime_maybePrependReqVar: "runtime (snd (maybePrependReqVar f imp flag)) = runtime imp"
proof -
  have "\<And>h ps ps' imp'. editParameters h ps imp = (ps', imp') \<Longrightarrow> runtime imp' = runtime imp"
    by (metis runtime_editParameters snd_conv)
  then show ?thesis
    by (auto simp: maybePrependReqVar_def Let_def
        split: prod.splits option.splits bindingName.splits funcBody.splits)
qed

lemma runtime_rewriteFunction: "runtime (snd (rewriteFunction f imp flag)) = runtime imp"
  by (simp add: rewriteFunction_def runtime_maybePrependReqVar)

lemma runtime_rewriteProperty: "runtime (snd (rewriteProperty p imp)) = runtime imp"
  by (cases "(p, imp)" rule: rewriteProperty.cases) (simp_all add: runtime_rewriteFunction)

lemma runtime_rewriteProperties: "runtime (snd (rewriteProperties ps imp)) = runtime imp"
  by (induction ps arbitrary: imp) (simp_all add: runtime_rewriteProperty)

lemma runtime_rewriteHandlerExport: "runtime (snd (rewriteHandlerExport d imp)) = runtime imp"
  by (cases "(d, imp)" rule: rewriteHandlerExport.cases)
     (simp_all add: runtime_rewriteFunction runtime_rewriteProperties)

lemma runtime_rewriteDefaultExport: "runtime (snd (rewriteDefaultExport d imp)) = runtime imp"
  by (cases "(d, imp)" rule: rewriteDefaultExport.cases) (simp_all add: runtime_rewriteFunction)

lemma runtime_rewriteExport: "runtime (snd (rewriteExport name d imp)) = runtime imp"
  by (simp add: rewriteExport_def runtime_rewriteHandlerExport runtime_rewriteDefaultExport)

lemma runtime_rewriteExports: "runtime (snd (rewriteExports seen items imp)) = runtime imp"
  by (induction seen items imp rule: rewriteExports.induct) (simp_all add: runtime_rewriteExport)

lemma runtime_rewriteHandlers: "runtime (snd (rewriteHandlers p items)) = []"
  by (simp add: rewriteHandlers_def runtime_rewriteExports emptyImports_def)

lemma setDelete_empty: "foldl (\<lambda>s n. setDelete n s) [] names = []"
  by (induction names) (simp_all add: setDelete_def)

lemma runtime_rewriteImport:
  "rewriteImport d st = Inr (d', st') \<Longrightarrow> runtime (newImportSets st) = [] \<Longrightarrow>
   runtime (newImportSets st') = []"
  by (auto simp: rewriteImport_def Let_def setDelete_empty split: if_splits sum.splits)

lemma runtime_rewriteImports:
  "rewriteImports items st = Inr (items', st') \<Longrightarrow> runtime (newImportSets st) = [] \<Longrightarrow>
   runtime (newImportSets st') = []"
proof (induction items st arbitrary: items' st' rule: rewriteImports.induct)
  case (2 d items st)
  from "2.prems"(1) obtain d1 st1 items1 where
    r: "rewriteImport d st = Inr (d1, st1)" and
    rs: "rewriteImports items st1 = Inr (items1, st')"
    by (auto split: sum.splits prod.splits)
  have "runtime (newImportSets st1) = []"
    by (rule runtime_rewriteImport [OF r "2.prems"(2)])
  then show ?case by (rule "2.IH" [OF r refl rs])
qed (auto split: sum.splits prod.splits)

lemma runtime_set_stays_empty:
  assumes "rewriteImports (fst (rewriteHandlers p items)) (initialLoop (snd (rewriteHandlers p items))) =
      Inr (items', st)"
  shows "runtime (newImportSets st) = []"
  by (rule runtime_rewriteImports [OF assms]) (simp add: initialLoop_def runtime_rewriteHandlers)

section \<open>Properties of the project update\<close>

lemma isRouteFile_index: "isRouteFile ''/app/routes/index.ts''"
  by (simp add: isRouteFile_def startsWith_def getDirectoryPath_def)

lemma update_namespaceRoute: "updateFile namespaceRoute = Inl InvalidOperationError"
  by (simp add: namespaceRoute_def updateFile_def rewriteHandlers_def isRouteFile_index
      rewriteExport_def rewriteFunction_def rewriteCtxMethods_def maybePrependReqVar_def
      editParameters_def identParam_def startsWith_def Let_def emptyImports_def setAdd_def
      rewriteImportStage_def initialLoop_def rewriteImport_def setDelete_def addNamedImport_def)

lemma update_oneServerImport:
  "updateFile oneServerImport = Inr (True, \<lparr>filePath = ''/app/main.ts'', statements =
     [ImportDeclaration \<lparr>moduleSpecifier = ''fresh'', defaultImport = None,
        namespaceImport = None, namedImports = [namedImport ''PageProps'']\<rparr>,
      ImportDeclaration (newImportDeclaration ''fresh/compat'' [''Handlers''])]\<rparr>)"
    by (simp add: oneServerImport_def updateFile_def rewriteHandlers_def isRouteFile_main
        rewriteImportStage_def initialLoop_def emptyImports_def rewriteImport_def
        Let_def namedImport_def compatNames_def removeEmptyImport_def synthesizeImports_def
        setDelete_def setAdd_def addImportDeclaration_def afterLastImport_def
        newImportDeclaration_def)

lemma success_fileTask: "success (fileTask sf) = (\<not> isl (updateFile sf))"
  by (simp add: fileTask_def split: sum.splits prod.splits)

lemma resultPath_fileTask: "resultPath (fileTask sf) = filePath sf"
  by (simp add: fileTask_def split: sum.splits prod.splits)

lemma foldl_countTask:
  "fst (foldl countTask c rs) = fst c + length (filter success rs)"
  by (induction rs arbitrary: c) (auto simp: countTask_def)

lemma filter_map_fileTask:
  "filter (\<lambda>r. \<not> success r) (map fileTask sfs) = map fileTask (filter (\<lambda>sf. isl (updateFile sf)) sfs)"
  by (induction sfs) (auto simp: success_fileTask)

lemma savedFile_failed: "isl (updateFile sf) \<Longrightarrow> savedFile sf = sf"
  by (auto simp: savedFile_def split: sum.splits)

text \<open>
  C9.  Each source file yields one result, whether \<^verbatim>\<open>updateFile\<close> returned or threw.  The
  \<^verbatim>\<open>errors\<close> field of the summary is the number of files on which it threw, their paths
  are the ones listed as failed, the files counted as processed are the others, and
  together they are all the files found.  A file on which \<^verbatim>\<open>updateFile\<close> throws stays as
  it was, while every file before and after it ends as \<^verbatim>\<open>updateFile\<close> leaves it.
\<close>

theorem C9_file_errors_are_local:
  "errors (fst (updateProjectFiles cfg sfs)) = length (filter (\<lambda>sf. isl (updateFile sf)) sfs)
   \<and> fst (snd (updateProjectFiles cfg sfs)) = map filePath (filter (\<lambda>sf. isl (updateFile sf)) sfs)
   \<and> filesProcessed (fst (updateProjectFiles cfg sfs)) =
       length (filter (\<lambda>sf. \<not> isl (updateFile sf)) sfs)
   \<and> filesProcessed (fst (updateProjectFiles cfg sfs)) + errors (fst (updateProjectFiles cfg sfs)) =
       length sfs
   \<and> (isl (updateFile bad) \<longrightarrow>
        snd (snd (updateProjectFiles cfg (before @ bad # after))) =
          map savedFile before @ bad # map savedFile after)"
proof -
  have 1: "errors (fst (updateProjectFiles cfg sfs)) = length (filter (\<lambda>sf. isl (updateFile sf)) sfs)"
    by (simp add: updateProjectFiles_def Let_def filter_map_fileTask)
  have 2: "fst (snd (updateProjectFiles cfg sfs)) = map filePath (filter (\<lambda>sf. isl (updateFile sf)) sfs)"
    by (simp add: updateProjectFiles_def Let_def filter_map_fileTask resultPath_fileTask comp_def)
  have 3: "filesProcessed (fst (updateProjectFiles cfg sfs)) =
       length (filter (\<lambda>sf. \<not> isl (updateFile sf)) sfs)"
    by (simp add: updateProjectFiles_def Let_def foldl_countTask filter_map comp_def success_fileTask)
  have 4: "length (filter (\<lambda>sf. \<not> isl (updateFile sf)) sfs) +
      length (filter (\<lambda>sf. isl (updateFile sf)) sfs) = length sfs"
    using sum_length_filter_compl [of "\<lambda>sf. \<not> isl (updateFile sf)" sfs] by simp
  have 5: "isl (updateFile bad) \<Longrightarrow>
        snd (snd (updateProjectFiles cfg (before @ bad # after))) =
          map savedFile before @ bad # map savedFile after"
    by (simp add: updateProjectFiles_def Let_def savedFile_failed)
  from 1 2 3 4 5 show ?thesis by simp
qed

theorem C9_file_errors_are_local_witness:
  "isl (updateFile namespaceRoute)
   \<and> updateProjectFiles True [namespaceRoute, oneServerImport] =
      (\<lparr>configUpdated = True, filesProcessed = 1, filesModified = 1, errors = 1\<rparr>,
       [''/app/routes/index.ts''],
       [namespaceRoute,
        \<lparr>filePath = ''/app/main.ts'', statements =
          [ImportDeclaration \<lparr>moduleSpecifier = ''fresh'', defaultImport = None,
             namespaceImport = None, namedImports = [namedImport ''PageProps'']\<rparr>,
           ImportDeclaration (newImportDeclaration ''fresh/compat'' [''Handlers''])]\<rparr>])"
proof -
  have bad: "isl (updateFile namespaceRoute)"
    by (simp add: update_namespaceRoute)
  have paths: "filePath namespaceRoute = ''/app/routes/index.ts''"
    by (simp add: namespaceRoute_def)
  have modified: "filesModified (fst (updateProjectFiles True [namespaceRoute, oneServerImport])) = 1"
    by (simp add: updateProjectFiles_def fileTask_def countTask_def update_namespaceRoute
        update_oneServerImport)
  have config: "configUpdated (fst (updateProjectFiles True [namespaceRoute, oneServerImport]))"
    by (simp add: updateProjectFiles_def Let_def)
  have saved: "savedFile oneServerImport = \<lparr>filePath = ''/app/main.ts'', statements =
          [ImportDeclaration \<lparr>moduleSpecifier = ''fresh'', defaultImport = None,
             namespaceImport = None, namedImports = [namedImport ''PageProps'']\<rparr>,
           ImportDeclaration (newImportDeclaration ''fresh/compat'' [''Handlers''])]\<rparr>"
    by (simp add: savedFile_def update_oneServerImport)
  obtain s ps fs where r: "updateProjectFiles True [namespaceRoute, oneServerImport] = (s, ps, fs)"
    by (cases "updateProjectFiles True [namespaceRoute, oneServerImport]") auto
  have "s = \<lparr>configUpdated = True, filesProcessed = 1, filesModified = 1, errors = 1\<rparr>
      \<and> ps = [''/app/routes/index.ts''] \<and> fs = [namespaceRoute, savedFile oneServerImport]"
    using C9_file_errors_are_local [of True "[namespaceRoute, oneServerImport]" namespaceRoute "[]" "[oneServerImport]"]
      bad paths modified config
    by (simp add: r update_namespaceRoute update_oneServerImport)
  with bad r saved show ?thesis by simp
qed

section \<open>Properties of the manifest update\<close>

lemma delete_absent: "map_of al k = None \<Longrightarrow> AList.delete k al = al"
  by (simp add: map_of_eq_None_iff delete_id)

lemma editImportMap_idem: "editImportMap (editImportMap m) = editImportMap m"
proof -
  let ?m = "editImportMap m"
  have m: "map_of ?m = ((map_of m)(''fresh'' \<mapsto> JString (''jsr:@fresh/core@^'' @ FRESH_VERSION),
      ''preact'' \<mapsto> JString (''npm:preact@^'' @ PREACT_VERSION),
      ''@preact/signals'' \<mapsto> JString (''npm:@preact/signals@^'' @ PREACT_SIGNALS_VERSION)))
      (''$fresh/'' := None, ''@preact/signals-core'' := None, ''preact-render-to-string'' := None)"
    by (simp add: editImportMap_def update_conv' delete_conv')
  have 1: "AList.update ''fresh'' (JString (''jsr:@fresh/core@^'' @ FRESH_VERSION)) ?m = ?m"
    by (rule update_triv) (simp add: m)
  have 2: "AList.update ''preact'' (JString (''npm:preact@^'' @ PREACT_VERSION)) ?m = ?m"
    by (rule update_triv) (simp add: m)
  have 3: "AList.update ''@preact/signals'' (JString (''npm:@preact/signals@^'' @ PREACT_SIGNALS_VERSION)) ?m = ?m"
    by (rule update_triv) (simp add: m)
  have 4: "AList.delete ''$fresh/'' ?m = ?m"
    by (rule delete_absent) (simp add: m)
  have 5: "AList.delete ''@preact/signals-core'' ?m = ?m"
    by (rule delete_absent) (simp add: m)
  have 6: "AList.delete ''preact-render-to-string'' ?m = ?m"
    by (rule delete_absent) (simp add: m)
  show ?thesis
    by (subst (1) editImportMap_def) (simp only: 1 2 3 4 5 6)
qed


lemma map_of_deleteIf:
  "map_of (deleteIf k olds t) k' =
     (if k' = k \<and> map_of t k \<in> set (map (\<lambda>v. Some (JString v)) olds) then None else map_of t k')"
  by (simp add: deleteIf_def delete_conv')

lemma map_of_replaceIf:
  "map_of (replaceIf k old new t) k' =
     (if k' = k \<and> map_of t k = Some (JString old) then Some (JString new) else map_of t k')"
  by (simp add: replaceIf_def update_conv')

lemma deleteIf_id:
  "map_of t k \<notin> set (map (\<lambda>v. Some (JString v)) olds) \<Longrightarrow> deleteIf k olds t = t"
  by (simp add: deleteIf_def)

lemma replaceIf_id: "map_of t k \<noteq> Some (JString old) \<Longrightarrow> replaceIf k old new t = t"
  by (simp add: replaceIf_def)

lemma editTaskMap_idem: "editTaskMap (editTaskMap t) = editTaskMap t"
proof -
  let ?t = "editTaskMap t"
  have 1: "deleteIf ''manifest'' [''deno task cli manifest $(pwd)''] ?t = ?t"
    by (rule deleteIf_id) (simp add: editTaskMap_def map_of_replaceIf map_of_deleteIf)
  have 2: \<open>deleteIf ''cli''
           [''echo "import '' @ [CHR 0x27, CHR 0x5C] @ ''$fresh/src/dev/cli.ts'" | deno run --unstable -A -'',
            ''echo "import '$fresh/src/dev/cli.ts'" | deno run --unstable -A -''] ?t = ?t\<close>
    by (rule deleteIf_id) (simp add: editTaskMap_def map_of_replaceIf map_of_deleteIf)
  have 3: "replaceIf ''update'' ''deno run -A -r https://fresh.deno.dev/update .''
         ''deno run -A -r jsr:@fresh/update .'' ?t = ?t"
    by (rule replaceIf_id) (simp add: editTaskMap_def map_of_replaceIf map_of_deleteIf)
  have 4: "replaceIf ''check''
       ''deno fmt --check && deno lint && deno check **/*.ts && deno check **/*.tsx''
       ''deno fmt --check && deno lint && deno check'' ?t = ?t"
    by (rule replaceIf_id) (simp add: editTaskMap_def map_of_replaceIf map_of_deleteIf)
  show ?thesis
    by (subst (1) editTaskMap_def) (simp only: 1 2 3 4)
qed

lemma editImportsValue_idem:
  "editImportsValue v = Inr w \<Longrightarrow> editImportsValue (Some w) = Inr w"
  by (cases v rule: editImportsValue.cases) (auto simp: editImportMap_idem)

lemma editTasksValue_idem:
  "editTasksValue v = Inr w \<Longrightarrow> editTasksValue w = Inr w"
  by (cases v rule: editTasksValue.cases) (auto simp: editTaskMap_idem)

lemma editTasks_idem:
  assumes "editTasks c = Inr c'" shows "editTasks c' = Inr c'"
proof (cases "map_of c ''tasks''")
  case None
  with assms show ?thesis by (auto simp: editTasks_def)
next
  case (Some tasks)
  with assms obtain tasks' where t: "editTasksValue tasks = Inr tasks'"
    and c': "c' = AList.update ''tasks'' tasks' c"
    by (auto simp: editTasks_def split: sum.splits)
  have look: "map_of c' ''tasks'' = Some tasks'"
    by (simp add: c' update_conv')
  have "AList.update ''tasks'' tasks' c' = c'"
    by (rule update_triv) (rule look)
  then show ?thesis
    using editTasksValue_idem [OF t] look by (simp add: editTasks_def)
qed

lemma editTasks_lookup:
  "editTasks c = Inr c' \<Longrightarrow> k \<noteq> ''tasks'' \<Longrightarrow> map_of c' k = map_of c k"
  by (auto simp: editTasks_def update_conv' split: option.splits sum.splits)

lemma editConfigObject_idem:
  assumes "editConfigObject c = Inr c'" shows "editConfigObject c' = Inr c'"
proof -
  from assms obtain imports' where
    i: "editImportsValue (map_of c ''imports'') = Inr imports'" and
    t: "editTasks (AList.delete ''lock'' (AList.update ''imports'' imports' c)) = Inr c'"
    by (auto simp: editConfigObject_def split: sum.splits)
  have li: "map_of c' ''imports'' = Some imports'"
    using editTasks_lookup [OF t, of "''imports''"] by (simp add: delete_conv' update_conv')
  have ll: "map_of c' ''lock'' = None"
    using editTasks_lookup [OF t, of "''lock''"] by (simp add: delete_conv' update_conv')
  have 1: "AList.update ''imports'' imports' c' = c'"
    by (rule update_triv) (rule li)
  have 2: "AList.delete ''lock'' c' = c'"
    by (rule delete_absent) (rule ll)
  show ?thesis
    using editImportsValue_idem [OF i] editTasks_idem [OF t] li
    by (simp add: editConfigObject_def 1 2)
qed

lemma editConfig_idem: "editConfig j = Inr j' \<Longrightarrow> editConfig j' = Inr j'"
  by (cases j rule: editConfig.cases) (auto split: sum.splits dest: editConfigObject_idem)

lemma readManifest_write:
  "readManifest fs = Some (p, content) \<Longrightarrow>
   readManifest (writeManifest p content' fs) = Some (p, content')"
  by (cases p) (auto simp: readManifest_def split: option.splits)

text \<open>
  C8.  Let a first run of \<^verbatim>\<open>updateDenoJson\<close> return, and let the parser read the manifest
  that this run serializes back as the same document, and that text have no white space
  around it.  Then a second run on the files left by the first returns
  \<^verbatim>\<open>updated: false\<close> with the same path, serializes the same content as the first, and
  leaves the files as they are.
\<close>

theorem C8_manifest_second_run:
  assumes run1: "updateDenoJson parse stringify fs = Inr (r1, c1, fs1)"
    and reparse: "\<And>j. editedManifest parse fs = Some j \<Longrightarrow>
                   parse (stringify j @ ''\<newline>'') = Some j"
    and trimmed: "\<And>j. editedManifest parse fs = Some j \<Longrightarrow>
                   trim (stringify j @ ''\<newline>'') = stringify j"
  shows "updateDenoJson parse stringify fs1 = Inr (\<lparr>updated = False, path = path r1\<rparr>, c1, fs1)"
proof (cases "readManifest fs")
  case None
  with run1 show ?thesis by (auto simp: updateDenoJson_def)
next
  case (Some pc)
  obtain p content where pc: "pc = (p, content)" by (cases pc)
  from run1 Some pc obtain j j' where
    parsed: "parse content = Some j" and edited: "editConfig j = Inr j'"
    by (auto simp: updateDenoJson_def split: option.splits sum.splits)
  have em: "editedManifest parse fs = Some j'"
    by (simp add: editedManifest_def Some pc parsed edited)
  show ?thesis
  proof (cases "stringify j' \<noteq> trim content")
    case False
    with run1 Some pc parsed edited show ?thesis
      by (auto simp: updateDenoJson_def Let_def)
  next
    case True
    with run1 Some pc parsed edited have
      r1: "r1 = \<lparr>updated = True, path = Some p\<rparr>" and c1: "c1 = Some (stringify j')"
      and fs1: "fs1 = writeManifest p (stringify j' @ ''\<newline>'') fs"
      by (auto simp: updateDenoJson_def Let_def)
    have rd: "readManifest fs1 = Some (p, stringify j' @ ''\<newline>'')"
      unfolding fs1 using Some pc by (simp add: readManifest_write)
    show ?thesis
      using reparse [OF em] trimmed [OF em] editConfig_idem [OF edited]
      by (simp add: updateDenoJson_def rd r1 c1 Let_def)
  qed
qed

lemma edit_before: "editConfig manifestBefore = Inr manifestAfter"
  by (simp add: manifestBefore_def manifestAfter_def editConfigObject_def editImportMap_def
      editTasks_def editTaskMap_def deleteIf_def replaceIf_def FRESH_VERSION_def
      PREACT_VERSION_def PREACT_SIGNALS_VERSION_def)

lemma text_after: \<open>jsonStringify manifestAfter =
  ''{\<newline>  "tasks": {\<newline>    "update": "deno run -A -r jsr:@fresh/update ."\<newline>  },\<newline>'' @
  ''  "imports": {\<newline>    "fresh": "jsr:@fresh/core@^2.0.0-alpha.34",\<newline>'' @
  ''    "preact": "npm:preact@^10.26.6",\<newline>'' @
  ''    "@preact/signals": "npm:@preact/signals@^2.0.4"\<newline>  }\<newline>}''\<close>
  by (simp add: jsonStringify_def manifestAfter_def quoted_def)

lemma after_not_before: "jsonStringify manifestAfter @ ''\<newline>'' \<noteq> manifestBeforeText"
  by (simp add: text_after manifestBeforeText_def)

lemma after_not_trim_before: "jsonStringify manifestAfter \<noteq> trim manifestBeforeText"
  by (simp add: text_after manifestBeforeText_def trim_def isSpace_def)

lemma trim_after: "trim (jsonStringify manifestAfter @ ''\<newline>'') = jsonStringify manifestAfter"
  by (simp add: text_after trim_def isSpace_def)

theorem C8_manifest_second_run_witness:
  "updateDenoJson manifestParse jsonStringify \<lparr>denoJson = Some manifestBeforeText, denoJsonc = None\<rparr> =
     Inr (\<lparr>updated = True, path = Some DenoJsonPath\<rparr>, Some (jsonStringify manifestAfter),
          \<lparr>denoJson = Some (jsonStringify manifestAfter @ ''\<newline>''), denoJsonc = None\<rparr>)
   \<and> updateDenoJson manifestParse jsonStringify
       \<lparr>denoJson = Some (jsonStringify manifestAfter @ ''\<newline>''), denoJsonc = None\<rparr> =
     Inr (\<lparr>updated = False, path = Some DenoJsonPath\<rparr>, Some (jsonStringify manifestAfter),
          \<lparr>denoJson = Some (jsonStringify manifestAfter @ ''\<newline>''), denoJsonc = None\<rparr>)"
proof -
  let ?fs = "\<lparr>denoJson = Some manifestBeforeText, denoJsonc = None\<rparr>"
  let ?fs1 = "\<lparr>denoJson = Some (jsonStringify manifestAfter @ ''\<newline>''), denoJsonc = None\<rparr>"
  have run1: "updateDenoJson manifestParse jsonStringify ?fs =
     Inr (\<lparr>updated = True, path = Some DenoJsonPath\<rparr>, Some (jsonStringify manifestAfter), ?fs1)"
    by (simp add: updateDenoJson_def readManifest_def manifestParse_def edit_before
        after_not_trim_before Let_def)
  have em: "editedManifest manifestParse ?fs = Some j \<Longrightarrow> j = manifestAfter" for j
    by (simp add: editedManifest_def readManifest_def manifestParse_def edit_before)
  have reparse: "editedManifest manifestParse ?fs = Some j \<Longrightarrow>
      manifestParse (jsonStringify j @ ''\<newline>'') = Some j" for j
    using em [of j] by (simp add: manifestParse_def after_not_before)
  have trimmed: "editedManifest manifestParse ?fs = Some j \<Longrightarrow>
      trim (jsonStringify j @ ''\<newline>'') = jsonStringify j" for j
    using em [of j] by (simp add: trim_after)
  have "updateDenoJson manifestParse jsonStringify ?fs1 =
     Inr (\<lparr>updated = False, path = path \<lparr>updated = True, path = Some DenoJsonPath\<rparr>\<rparr>,
          Some (jsonStringify manifestAfter), ?fs1)"
    by (rule C8_manifest_second_run [OF run1 reparse trimmed])
  with run1 show ?thesis by simp
qed

section \<open>Properties of the file update\<close>












subsection \<open>The directives, line by line\<close>


















subsection \<open>The statement walker on its own result\<close>















subsection \<open>The parameter normalizer on its own result\<close>










subsection \<open>Fixed functions are left alone\<close>







subsection \<open>One run fixes the stable functions\<close>







subsection \<open>The second run\<close>
















subsection \<open>Runs on the examples\<close>





lemma strip_empty: "stripDirectives [] = []"
  by (simp add: stripDirectives_def)















lemma format_handlerRoute: "formatLineEnds (statements (handlerRoute ps ss)) = statements (handlerRoute ps ss)"
  by (simp add: formatLineEnds_def handlerRoute_def)







lemma conditions_fail:
  \<open>\<not> list_all directivesOnOwnLines (triviaTexts (statements
       (pragmaFile ''/** @jsx /// <reference lib="dom" />\<newline>h */\<newline>'')))\<close>
  "\<not> list_all stableFunction (rewrittenFunctions (handlerRoute
       [identParam ''req'' None, identParam ''ctx'' None, identParam ''extra'' None] []))"
  "\<not> list_all stableFunction (rewrittenFunctions (handlerRoute
       [identParam ''x'' None, identParam ''req'' None] []))"
  "\<not> list_all stableFunction (rewrittenFunctions (handlerRoute []
      [ReturnStatement (Some (CallExpression
         (accessChain (Identifier ''ctx'') [''remoteAddr'', ''renderNotFound'']) []))]))"
  "formatLineEnds (statements (pragmaFile carriagePragma)) \<noteq> statements (pragmaFile carriagePragma)"
  by (simp_all add: pragmaFile_def directivesOnOwnLines_def terminatedLines_def directiveLines_def
      endsWith_def rewrittenFunctions_def handlerRoute_def isRouteFile_index exportFunctions_def
      stableFunction_def identParam_def accessChain_def formatLineEnds_def carriagePragma_def)


end
